theory Spec2Isabelle
  imports Main
begin

section \<open>Android file chooser: result dispatch and locator resolution\<close>

text \<open>
  A shallow embedding of \<^verbatim>\<open>plyer/platforms/android/filechooser.py\<close>.
  Python exceptions are values of the sum type \<open>exn + 'a\<close> (\<open>Inl\<close> the exception).
  Calls into the Android platform and into \<^verbatim>\<open>plyer.storagepath\<close> are fields of
  the record \<open>env\<close>; every platform call that the code issues is recorded as an
  \<open>event\<close>, so that what was queried, and how often a callback ran, can be read
  off the emitted events.
\<close>

subsection \<open>Python values and library functions\<close>

datatype exn =
    JavaException
  | TypeError
  | AttributeError
  | ValueError
  | IndexError
  | OSError

text \<open>The values a slot of a selection can hold: a path, \<^verbatim>\<open>None\<close>, or a list.\<close>

datatype pyval = PStr string | PNone | PList "pyval list"

text \<open>Truth value of an optional string: \<^verbatim>\<open>None\<close> and \<^verbatim>\<open>''\<close> are falsy.\<close>

definition truthy :: "string option \<Rightarrow> bool" where
  "truthy p = (case p of None \<Rightarrow> False | Some s \<Rightarrow> s \<noteq> [])"

text \<open>\<^verbatim>\<open>sep.join(xs)\<close> on a list of strings.\<close>

fun str_join :: "string \<Rightarrow> string list \<Rightarrow> string" where
  "str_join sep [] = []"
| "str_join sep [x] = x"
| "str_join sep (x # y # ys) = x @ sep @ str_join sep (y # ys)"

text \<open>\<^verbatim>\<open>s.split(c)\<close> for a one-character separator: one more part than separators.\<close>

fun str_split :: "char \<Rightarrow> string \<Rightarrow> string list" where
  "str_split c [] = [[]]"
| "str_split c (x # xs) =
     (if x = c then [] # str_split c xs
      else (case str_split c xs of
              [] \<Rightarrow> [[x]]
            | p # ps \<Rightarrow> (x # p) # ps))"

text \<open>\<^verbatim>\<open>a in b\<close> on strings: \<open>a\<close> occurs in \<open>b\<close> as a contiguous run.\<close>

fun starts_with :: "string \<Rightarrow> string \<Rightarrow> bool" where
  "starts_with [] ys = True"
| "starts_with (x # xs) [] = False"
| "starts_with (x # xs) (y # ys) = (x = y \<and> starts_with xs ys)"

fun str_in :: "string \<Rightarrow> string \<Rightarrow> bool" where
  "str_in a [] = (a = [])"
| "str_in a (y # ys) = (starts_with a (y # ys) \<or> str_in a ys)"

text \<open>\<^verbatim>\<open>s.lower()\<close> on the ASCII letters.\<close>

definition lower_char :: "char \<Rightarrow> char" where
  "lower_char c =
     (let n = of_char c :: nat in if 65 \<le> n \<and> n \<le> 90 then char_of (n + 32) else c)"

definition lower :: "string \<Rightarrow> string" where
  "lower s = map lower_char s"

text \<open>
  \<^verbatim>\<open>posixpath.join(a, b)\<close>: an absolute \<open>b\<close> replaces \<open>a\<close>; an empty \<open>a\<close>, or one
  that ends with the separator, is extended without a new separator.
\<close>

definition join :: "string \<Rightarrow> string \<Rightarrow> string" where
  "join a b =
     (if starts_with ''/'' b then b
      else if a = [] \<or> last a = CHR ''/'' then a @ b
      else a @ ''/'' @ b)"

text \<open>\<^verbatim>\<open>posixpath.basename(p)\<close>: what follows the last separator.\<close>

fun basename :: "string \<Rightarrow> string" where
  "basename [] = []"
| "basename (x # xs) =
     (if CHR ''/'' \<in> set xs then basename xs
      else if x = CHR ''/'' then xs
      else x # xs)"

text \<open>\<^verbatim>\<open>basename\<close> and \<^verbatim>\<open>join\<close> raise \<^verbatim>\<open>TypeError\<close> on anything but a string.\<close>

definition basename_py :: "pyval \<Rightarrow> exn + string" where
  "basename_py v = (case v of PStr p \<Rightarrow> Inr (basename p) | _ \<Rightarrow> Inl TypeError)"

definition join_py :: "string \<Rightarrow> string option \<Rightarrow> exn + string" where
  "join_py a b = (case b of Some p \<Rightarrow> Inr (join a p) | None \<Rightarrow> Inl TypeError)"

subsection \<open>The platform\<close>

text \<open>
  A locator. \<^verbatim>\<open>Uri.parse(s)\<close> is \<open>Uri s\<close>; \<^verbatim>\<open>ContentUris.withAppendedId(u, n)\<close>
  is \<open>WithAppendedId u n\<close>.
\<close>

datatype uri = Uri string | WithAppendedId uri int

text \<open>
  The \<^verbatim>\<open>selection_args\<close> argument of a query: \<^verbatim>\<open>None\<close>, a bare string, or a list.
\<close>

datatype selargs = ArgsNone | ArgsStr string | ArgsList "string option list"

text \<open>
  A cursor, positioned before its first row: the index of a column name (\<open>-1\<close> when
  absent), the column count, and the rows; a row answers \<^verbatim>\<open>getString(idx)\<close>, which
  may throw and may return null.
\<close>

record cursor =
  getColumnIndex :: "string \<Rightarrow> int"
  getColumnCount :: int
  cursor_rows :: "(int \<Rightarrow> exn + string option) list"

text \<open>The handler a selection is passed to: the class's placeholder or a caller's function.\<close>

datatype callback = DefaultHandler | OnSelection nat

datatype event =
    GrantUriPermission uri
  | Query uri "string list option" "string option" selargs
  | PrintExc
  | StartActivityForResult string bool int
  | Mkdir string
  | Remove string
  | OpenInputStream "uri option"
  | NewFileOutputStream string
  | FileUtilsCopy "uri option" string
  | HandleSelection callback "pyval list"

record env =
  api_version :: int
  Activity_RESULT_OK :: int
  DIRECTORY_DOCUMENTS :: string
  downloads_dir :: string
  external_storage_dir :: string
  sdcard_dir :: "string option"
  IMedia_EXTERNAL_CONTENT_URI :: uri
  VMedia_EXTERNAL_CONTENT_URI :: uri
  AMedia_EXTERNAL_CONTENT_URI :: uri
  Files_external_uri :: uri
  getAuthority :: "uri \<Rightarrow> string option"
  getScheme :: "uri \<Rightarrow> string option"
  getPath :: "uri \<Rightarrow> string option"
  getDocumentId :: "uri \<Rightarrow> exn + string"
  Long_valueOf :: "string \<Rightarrow> exn + int"
  grantUriPermission :: "uri \<Rightarrow> exn option"
  query :: "uri \<Rightarrow> string list option \<Rightarrow> string option \<Rightarrow> selargs \<Rightarrow> exn + cursor option"
  getExternalCacheDir :: "string option"
  io_fails :: "event \<Rightarrow> exn option"

text \<open>A result together with the platform calls issued while computing it.\<close>

type_synonym 'a eff = "(exn + 'a) \<times> event list"

subsection \<open>\<^verbatim>\<open>_parse_content\<close>\<close>

text \<open>\<^verbatim>\<open>range(n)\<close> as the list of its indices.\<close>

definition py_range :: "int \<Rightarrow> int list" where
  "py_range n = [0..n - 1]"

text \<open>The inner \<^verbatim>\<open>for idx in range(cursor.getColumnCount())\<close> loop on one row.\<close>

fun read_columns :: "(int \<Rightarrow> exn + string option) \<Rightarrow> int list \<Rightarrow> exn + string option list" where
  "read_columns row [] = Inr []"
| "read_columns row (i # is) =
     (case row i of
        Inl e \<Rightarrow> Inl e
      | Inr v \<Rightarrow> (case read_columns row is of Inl e \<Rightarrow> Inl e | Inr vs \<Rightarrow> Inr (v # vs)))"

text \<open>The outer \<^verbatim>\<open>while cursor.moveToNext()\<close> loop.\<close>

fun read_rows :: "(int \<Rightarrow> exn + string option) list \<Rightarrow> int list \<Rightarrow> exn + string option list" where
  "read_rows [] is = Inr []"
| "read_rows (row # rows) is =
     (case read_columns row is of
        Inl e \<Rightarrow> Inl e
      | Inr vs \<Rightarrow> (case read_rows rows is of Inl e \<Rightarrow> Inl e | Inr ws \<Rightarrow> Inr (vs @ ws)))"

text \<open>\<^verbatim>\<open>'/'.join(result)\<close>: a null among the collected values is a \<^verbatim>\<open>TypeError\<close>.\<close>

definition join_cells :: "string option list \<Rightarrow> exn + string option" where
  "join_cells cells =
     (case those cells of
        None \<Rightarrow> Inl TypeError
      | Some ss \<Rightarrow> Inr (Some (str_join ''/'' ss)))"

text \<open>What \<^verbatim>\<open>_parse_content\<close> does with the cursor a query returned.\<close>

definition read_cursor :: "cursor option \<Rightarrow> string list option \<Rightarrow> bool \<Rightarrow> exn + string option" where
  "read_cursor co projection index_all =
     (case co of
        None \<Rightarrow> Inl AttributeError
      | Some c \<Rightarrow>
          if \<not> index_all then
            (case projection of
               None \<Rightarrow> Inl TypeError
             | Some [] \<Rightarrow> Inl IndexError
             | Some (col # _) \<Rightarrow>
                 (let idx = getColumnIndex c col in
                  if idx \<noteq> - 1 \<and> cursor_rows c \<noteq> [] then hd (cursor_rows c) idx
                  else Inr None))
          else
            (case read_rows (cursor_rows c) (py_range (getColumnCount c)) of
               Inl e \<Rightarrow> Inl e
             | Inr cells \<Rightarrow> join_cells cells))"

definition parse_content ::
  "env \<Rightarrow> uri \<Rightarrow> string list option \<Rightarrow> string option \<Rightarrow> selargs \<Rightarrow> bool \<Rightarrow> string option eff" where
  "parse_content e u projection selection selection_args index_all =
     (case grantUriPermission e u of
        Some x \<Rightarrow> (Inl x, [GrantUriPermission u])
      | None \<Rightarrow>
          (case query e u projection selection selection_args of
             Inl x \<Rightarrow> Inl x
           | Inr co \<Rightarrow> read_cursor co projection index_all,
           [GrantUriPermission u, Query u projection selection selection_args]))"

subsection \<open>Provider strategies\<close>

text \<open>
  \<^verbatim>\<open>_handle_external_documents\<close>. The tuple assignment from \<^verbatim>\<open>file_id.split(':')\<close>
  raises \<^verbatim>\<open>ValueError\<close> unless there are exactly two parts.
\<close>

definition handle_external_documents :: "env \<Rightarrow> uri \<Rightarrow> exn + string" where
  "handle_external_documents e u =
     (case getDocumentId e u of
        Inl x \<Rightarrow> Inl x
      | Inr file_id \<Rightarrow>
          (case str_split CHR '':'' file_id of
             [file_type, file_name] \<Rightarrow>
               (let primary_storage = external_storage_dir e;
                    directory =
                      (if file_type = ''primary'' then primary_storage
                       else if file_type = ''home'' then
                         join primary_storage (DIRECTORY_DOCUMENTS e)
                       else
                         (case sdcard_dir e of
                            None \<Rightarrow> primary_storage
                          | Some sdcard_storage \<Rightarrow>
                              if sdcard_storage \<noteq> [] \<and> str_in file_type sdcard_storage
                              then sdcard_storage
                              else primary_storage))
                in Inr (join directory file_name))
           | _ \<Rightarrow> Inl ValueError))"

text \<open>\<^verbatim>\<open>_handle_media_documents\<close>: the file name, the filter and the collection to query.\<close>

definition handle_media_documents :: "env \<Rightarrow> uri \<Rightarrow> exn + (string \<times> string \<times> uri)" where
  "handle_media_documents e u =
     (case getDocumentId e u of
        Inl x \<Rightarrow> Inl x
      | Inr file_id \<Rightarrow>
          (case str_split CHR '':'' file_id of
             [file_type, file_name] \<Rightarrow>
               Inr (file_name, ''_id=?'',
                    if file_type = ''image'' then IMedia_EXTERNAL_CONTENT_URI e
                    else if file_type = ''video'' then VMedia_EXTERNAL_CONTENT_URI e
                    else if file_type = ''audio'' then AMedia_EXTERNAL_CONTENT_URI e
                    else Files_external_uri e)
           | _ \<Rightarrow> Inl ValueError))"

text \<open>The known download locations of \<^verbatim>\<open>_handle_downloads_documents\<close>.\<close>

definition downloads :: "string list" where
  "downloads =
     [''content://downloads/public_downloads'',
      ''content://downloads/my_downloads'',
      ''content://downloads/all_downloads'']"

text \<open>
  The two \<^verbatim>\<open>for down in try_uris\<close> loops of \<^verbatim>\<open>_handle_downloads_documents\<close>; they
  differ in the query only (\<open>index_all\<close> false: projection \<^verbatim>\<open>['_data']\<close>; true: no
  projection, all columns joined). \<open>path\<close> is the variable the loop assigns; only
  a \<^verbatim>\<open>JavaException\<close> is caught.
\<close>

fun try_uris_loop :: "env \<Rightarrow> bool \<Rightarrow> uri list \<Rightarrow> string option \<Rightarrow> string option eff" where
  "try_uris_loop e index_all [] path = (Inr path, [])"
| "try_uris_loop e index_all (down # rest) path =
     (case parse_content e down (if index_all then None else Some [''_data''])
             None ArgsNone index_all of
        (Inl x, ev) \<Rightarrow>
          if x = JavaException then
            (if truthy path then (Inr path, ev @ [PrintExc])
             else (case try_uris_loop e index_all rest path of
                     (r, ev') \<Rightarrow> (r, ev @ [PrintExc] @ ev')))
          else (Inl x, ev)
      | (Inr p, ev) \<Rightarrow>
          if truthy p then (Inr p, ev)
          else (case try_uris_loop e index_all rest p of (r, ev') \<Rightarrow> (r, ev @ ev')))"

text \<open>
  \<^verbatim>\<open>_handle_downloads_documents\<close>. The first \<^verbatim>\<open>try\<close> catches every exception, also
  the \<^verbatim>\<open>TypeError\<close> of joining the downloads directory with \<^verbatim>\<open>None\<close>.
\<close>

definition handle_downloads_documents :: "env \<Rightarrow> uri \<Rightarrow> string option eff" where
  "handle_downloads_documents e u =
     (case parse_content e u (Some [''_display_name'']) None ArgsNone False of
        (r, ev) \<Rightarrow>
          (case (case r of Inl x \<Rightarrow> Inl x | Inr path \<Rightarrow> join_py (downloads_dir e) path) of
             Inr joined \<Rightarrow> (Inr (Some joined), ev)
           | Inl _ \<Rightarrow>
               (case getDocumentId e u of
                  Inl x \<Rightarrow> (Inl x, ev @ [PrintExc])
                | Inr file_id \<Rightarrow>
                    (case Long_valueOf e file_id of
                       Inl x \<Rightarrow> (Inl x, ev @ [PrintExc])
                     | Inr n \<Rightarrow>
                         (let try_uris = map (\<lambda>down. WithAppendedId (Uri down) n) downloads
                          in case try_uris_loop e False try_uris None of
                               (r2, ev2) \<Rightarrow>
                                 (case r2 of
                                    Inl x \<Rightarrow> (Inl x, ev @ [PrintExc] @ ev2)
                                  | Inr path \<Rightarrow>
                                      if \<not> truthy path then
                                        (case try_uris_loop e True try_uris path of
                                           (r3, ev3) \<Rightarrow> (r3, ev @ [PrintExc] @ ev2 @ ev3))
                                      else (Inr path, ev @ [PrintExc] @ ev2)))))))"

subsection \<open>\<^verbatim>\<open>_resolve_uri\<close>\<close>

text \<open>
  The \<^verbatim>\<open>finally\<close> clause of the content branch: when \<open>path\<close> is falsy, one query for
  the display name against the original locator. \<open>pending\<close> is the exception the
  \<^verbatim>\<open>try\<close> statement still has to re-raise; an exception of the clause itself
  replaces it.
\<close>

definition finally_clause ::
  "env \<Rightarrow> uri \<Rightarrow> string option \<Rightarrow> exn option \<Rightarrow> event list \<Rightarrow> string option eff" where
  "finally_clause e orig path pending ev =
     (if \<not> truthy path then
        (case parse_content e orig (Some [''_display_name'']) None ArgsNone False of
           (r, ev3) \<Rightarrow>
             (case r of
                Inl x \<Rightarrow> (Inl x, ev @ ev3)
              | Inr p \<Rightarrow>
                  (case pending of
                     Some x \<Rightarrow> (Inl x, ev @ ev3)
                   | None \<Rightarrow> (Inr p, ev @ ev3))))
      else (case pending of Some x \<Rightarrow> (Inl x, ev) | None \<Rightarrow> (Inr path, ev)))"

text \<open>\<^verbatim>\<open>selection_args=file_name\<close> and \<^verbatim>\<open>selection_args=[file_name]\<close>.\<close>

definition unwrapped :: "string option \<Rightarrow> selargs" where
  "unwrapped file_name = (case file_name of None \<Rightarrow> ArgsNone | Some s \<Rightarrow> ArgsStr s)"

definition wrapped :: "string option \<Rightarrow> selargs" where
  "wrapped file_name = ArgsList [file_name]"

text \<open>
  The \<^verbatim>\<open>try\<close> / \<^verbatim>\<open>except JavaException\<close> / \<^verbatim>\<open>finally\<close> statement. \<open>u\<close> is the
  locator queried, \<open>orig\<close> the one \<^verbatim>\<open>_resolve_uri\<close> was called with, \<open>path0\<close> the
  value of \<open>path\<close> on entry.
\<close>

definition content_attempts ::
  "env \<Rightarrow> uri \<Rightarrow> uri \<Rightarrow> string option \<Rightarrow> string option \<Rightarrow> string option \<Rightarrow> string option eff" where
  "content_attempts e u orig selection file_name path0 =
     (case parse_content e u (Some [''_data'']) selection (unwrapped file_name) False of
        (r1, ev1) \<Rightarrow>
          (case r1 of
             Inr p \<Rightarrow> finally_clause e orig p None ev1
           | Inl x \<Rightarrow>
               if x = JavaException then
                 (case parse_content e u (Some [''_data'']) selection (wrapped file_name) False of
                    (r2, ev2) \<Rightarrow>
                      (case r2 of
                         Inr p \<Rightarrow> finally_clause e orig p None (ev1 @ ev2)
                       | Inl y \<Rightarrow> finally_clause e orig path0 (Some y) (ev1 @ ev2)))
               else finally_clause e orig path0 (Some x) ev1))"

text \<open>
  The scheme dispatch that ends \<^verbatim>\<open>_resolve_uri\<close>. \<open>path\<close> is also the value of
  \<^verbatim>\<open>downloads\<close>: the two are assigned together or are both \<^verbatim>\<open>None\<close>.
\<close>

definition by_scheme ::
  "env \<Rightarrow> string \<Rightarrow> uri \<Rightarrow> uri \<Rightarrow> string option \<Rightarrow> string option \<Rightarrow> string option \<Rightarrow>
   string option eff" where
  "by_scheme e uri_scheme u orig selection file_name path =
     (if uri_scheme = ''content'' \<and> \<not> truthy path then
        content_attempts e u orig selection file_name path
      else if uri_scheme = ''file'' then (Inr (getPath e u), [])
      else (Inr path, []))"

text \<open>
  \<^verbatim>\<open>_resolve_uri\<close>. Calling a method on \<^verbatim>\<open>None\<close> (a null locator, a null scheme)
  is an \<^verbatim>\<open>AttributeError\<close>.
\<close>

definition resolve_uri :: "env \<Rightarrow> uri option \<Rightarrow> string option eff" where
  "resolve_uri e uo =
     (case uo of
        None \<Rightarrow> (Inl AttributeError, [])
      | Some u \<Rightarrow>
          (case getScheme e u of
             None \<Rightarrow> (Inl AttributeError, [])
           | Some sch \<Rightarrow>
               (let uri_authority = getAuthority e u;
                    uri_scheme = lower sch
                in if uri_authority = Some ''com.android.externalstorage.documents'' then
                     (case handle_external_documents e u of
                        Inl x \<Rightarrow> (Inl x, [])
                      | Inr p \<Rightarrow> (Inr (Some p), []))
                   else if uri_authority = Some ''com.android.providers.downloads.documents'' then
                     (case handle_downloads_documents e u of
                        (r, ev) \<Rightarrow>
                          (case r of
                             Inl x \<Rightarrow> (Inl x, ev)
                           | Inr path \<Rightarrow>
                               (case by_scheme e uri_scheme u u None None path of
                                  (r', ev') \<Rightarrow> (r', ev @ ev'))))
                   else if uri_authority = Some ''com.android.providers.media.documents'' then
                     (case handle_media_documents e u of
                        Inl x \<Rightarrow> (Inl x, [])
                      | Inr (file_name, selection, u') \<Rightarrow>
                          by_scheme e uri_scheme u' u (Some selection) (Some file_name) None)
                   else by_scheme e uri_scheme u u None None None)))"

subsection \<open>The chooser object and the result listener\<close>

text \<open>A result payload: the clip data (its items' locators) and the primary locator.\<close>

record intent =
  getClipData :: "uri option list option"
  getData :: "uri option"

text \<open>
  The fields of an \<^verbatim>\<open>AndroidFileChooser\<close>, together with the part of the world its
  listener changes: the paths that exist and the platform calls issued so far.
\<close>

record state =
  select_code :: int
  save_code :: int
  selection :: pyval
  handle_selection :: callback
  selected_mime_type :: pyval
  files :: "string set"
  events :: "event list"

text \<open>
  \<^verbatim>\<open>randint(a, b)\<close>: some integer of \<open>a..b\<close>, chosen by the raw draw \<open>r\<close> of the
  generator.
\<close>

definition randint :: "int \<Rightarrow> int \<Rightarrow> nat \<Rightarrow> int" where
  "randint a b r = a + int (r mod nat (b - a + 1))"

text \<open>\<^verbatim>\<open>__init__\<close>, given the generator's two draws and the paths that exist.\<close>

definition init :: "nat \<Rightarrow> nat \<Rightarrow> string set \<Rightarrow> state" where
  "init r1 r2 fs =
     \<lparr>select_code = randint 123456 654321 r1,
      save_code = randint 123456 654321 r2,
      selection = PNone,
      handle_selection = DefaultHandler,
      selected_mime_type = PNone,
      files = fs,
      events = []\<rparr>"

definition mime_type :: "(string \<times> string) list" where
  "mime_type =
     [(''doc'', ''application/msword''),
      (''docx'', ''application/vnd.openxmlformats-officedocument.wordprocessingml.document''),
      (''ppt'', ''application/vnd.ms-powerpoint''),
      (''pptx'', ''application/vnd.openxmlformats-officedocument.presentationml.presentation''),
      (''xls'', ''application/vnd.ms-excel''),
      (''xlsx'', ''application/vnd.openxmlformats-officedocument.spreadsheetml.sheet''),
      (''text'', ''text/*''),
      (''pdf'', ''application/pdf''),
      (''zip'', ''application/zip''),
      (''image'', ''image/*''),
      (''video'', ''video/*''),
      (''audio'', ''audio/*''),
      (''application'', ''application/*'')]"

text \<open>The type the intent of \<^verbatim>\<open>_open_file\<close> is given.\<close>

definition intent_type :: "pyval \<Rightarrow> string" where
  "intent_type selected =
     (case selected of
        PStr m \<Rightarrow>
          (if m = [] then ''*/*''
           else (case map_of mime_type m of None \<Rightarrow> ''*/*'' | Some t \<Rightarrow> t))
      | _ \<Rightarrow> ''*/*'')"

text \<open>
  \<^verbatim>\<open>_open_file\<close> with its keyword arguments \<^verbatim>\<open>on_selection\<close>, \<^verbatim>\<open>filters\<close> and
  \<^verbatim>\<open>multiple\<close> (\<open>None\<close>: not given). The activity is started with the object's
  \<open>select_code\<close>.
\<close>

definition open_file ::
  "state \<Rightarrow> callback option \<Rightarrow> pyval list option \<Rightarrow> bool option \<Rightarrow> (exn + unit) \<times> state" where
  "open_file s on_selection filters multiple =
     (let s1 = s\<lparr>handle_selection :=
                   (case on_selection of None \<Rightarrow> handle_selection s | Some cb \<Rightarrow> cb)\<rparr>
      in case (case filters of
                 None \<Rightarrow> Inr (PStr [])
               | Some [] \<Rightarrow> Inl IndexError
               | Some (f # _) \<Rightarrow> Inr f) of
           Inl x \<Rightarrow> (Inl x, s1)
         | Inr selected \<Rightarrow>
             (let s2 = s1\<lparr>selected_mime_type := selected\<rparr>
              in (Inr (),
                  s2\<lparr>events := events s2 @
                      [StartActivityForResult (intent_type selected)
                         (case multiple of None \<Rightarrow> False | Some m \<Rightarrow> m)
                         (select_code s2)]\<rparr>)))"

text \<open>\<^verbatim>\<open>self._resolve_uri(...) or []\<close>: a falsy result is replaced by the empty list.\<close>

definition slot_of :: "string option \<Rightarrow> pyval" where
  "slot_of p = (if truthy p then (case p of Some s \<Rightarrow> PStr s | None \<Rightarrow> PList []) else PList [])"

definition value_of :: "string option \<Rightarrow> pyval" where
  "value_of p = (case p of Some s \<Rightarrow> PStr s | None \<Rightarrow> PNone)"

text \<open>The \<^verbatim>\<open>for count in range(...)\<close> loop over the clip data's items.\<close>

fun resolve_items :: "env \<Rightarrow> uri option list \<Rightarrow> pyval list eff" where
  "resolve_items e [] = (Inr [], [])"
| "resolve_items e (item # items) =
     (case resolve_uri e item of
        (r, ev) \<Rightarrow>
          (case r of
             Inl x \<Rightarrow> (Inl x, ev)
           | Inr p \<Rightarrow>
               (case resolve_items e items of
                  (rs, ev') \<Rightarrow>
                    (case rs of
                       Inl x \<Rightarrow> (Inl x, ev @ ev')
                     | Inr vs \<Rightarrow> (Inr (slot_of p # vs), ev @ ev')))))"

text \<open>
  The \<^verbatim>\<open>try\<close> / \<^verbatim>\<open>except Exception\<close> statement that builds \<open>selection\<close>: any
  exception of the loop (also a missing clip data) discards what the loop built and
  resolves the primary locator alone.
\<close>

definition resolve_selection :: "env \<Rightarrow> intent \<Rightarrow> pyval list eff" where
  "resolve_selection e d =
     (case (case getClipData d of
              None \<Rightarrow> (Inl AttributeError, [])
            | Some items \<Rightarrow> resolve_items e items) of
        (r, ev) \<Rightarrow>
          (case r of
             Inr sel \<Rightarrow> (Inr sel, ev)
           | Inl _ \<Rightarrow>
               (case resolve_uri e (getData d) of
                  (r', ev') \<Rightarrow>
                    (case r' of
                       Inl x \<Rightarrow> (Inl x, ev @ ev')
                     | Inr p \<Rightarrow> (Inr [value_of p], ev @ ev')))))"

text \<open>A platform or file-system call: recorded, and failing when the platform says so.\<close>

definition io :: "env \<Rightarrow> event \<Rightarrow> state \<Rightarrow> exn option \<times> state" where
  "io e ev s = (io_fails e ev, s\<lparr>events := events s @ [ev]\<rparr>)"

text \<open>\<^verbatim>\<open>if not exists(cache_file_loc): os.mkdir(cache_file_loc)\<close>\<close>

definition ensure_dir :: "env \<Rightarrow> string \<Rightarrow> state \<Rightarrow> exn option \<times> state" where
  "ensure_dir e p s =
     (if p \<notin> files s then
        (case io e (Mkdir p) s of
           (Some x, s') \<Rightarrow> (Some x, s')
         | (None, s') \<Rightarrow> (None, s'\<lparr>files := insert p (files s')\<rparr>))
      else (None, s))"

text \<open>\<^verbatim>\<open>if exists(cache_file): os.remove(cache_file)\<close>\<close>

definition remove_stale :: "env \<Rightarrow> string \<Rightarrow> state \<Rightarrow> exn option \<times> state" where
  "remove_stale e p s =
     (if p \<in> files s then
        (case io e (Remove p) s of
           (Some x, s') \<Rightarrow> (Some x, s')
         | (None, s') \<Rightarrow> (None, s'\<lparr>files := files s' - {p}\<rparr>))
      else (None, s))"

text \<open>Opening the source stream, creating the cache file, and the copy.\<close>

definition copy_in :: "env \<Rightarrow> uri option \<Rightarrow> string \<Rightarrow> state \<Rightarrow> exn option \<times> state" where
  "copy_in e src cache_file s =
     (case io e (OpenInputStream src) s of
        (Some x, s1) \<Rightarrow> (Some x, s1)
      | (None, s1) \<Rightarrow>
          (case io e (NewFileOutputStream cache_file) s1 of
             (Some x, s2) \<Rightarrow> (Some x, s2)
           | (None, s2) \<Rightarrow>
               io e (FileUtilsCopy src cache_file) (s2\<lparr>files := insert cache_file (files s2)\<rparr>)))"

text \<open>
  The \<^verbatim>\<open>api_version > 28\<close> block of the listener up to the callback: the name of
  the cache file comes from \<^verbatim>\<open>selection[0]\<close>, its bytes from \<^verbatim>\<open>data.getData()\<close>.
\<close>

definition cache_first :: "env \<Rightarrow> intent \<Rightarrow> pyval list \<Rightarrow> state \<Rightarrow> (exn + string) \<times> state" where
  "cache_first e d sel s =
     (case sel of
        [] \<Rightarrow> (Inl IndexError, s)
      | first # _ \<Rightarrow>
          (case basename_py first of
             Inl x \<Rightarrow> (Inl x, s)
           | Inr filename \<Rightarrow>
               (case getExternalCacheDir e of
                  None \<Rightarrow> (Inl AttributeError, s)
                | Some cache_dir \<Rightarrow>
                    (let cache_file_loc = join cache_dir ''FromSharedStorage'';
                         cache_file = join cache_file_loc filename
                     in case ensure_dir e cache_file_loc s of
                          (Some x, s1) \<Rightarrow> (Inl x, s1)
                        | (None, s1) \<Rightarrow>
                            (case remove_stale e cache_file s1 of
                               (Some x, s2) \<Rightarrow> (Inl x, s2)
                             | (None, s2) \<Rightarrow>
                                 (case copy_in e (getData d) cache_file s2 of
                                    (Some x, s3) \<Rightarrow> (Inl x, s3)
                                  | (None, s3) \<Rightarrow> (Inr cache_file, s3)))))))"

text \<open>Calling \<^verbatim>\<open>self._handle_selection\<close>.\<close>

definition call_handler :: "pyval list \<Rightarrow> state \<Rightarrow> state" where
  "call_handler arg s = s\<lparr>events := events s @ [HandleSelection (handle_selection s) arg]\<rparr>"

text \<open>\<^verbatim>\<open>_on_activity_result\<close>, the listener bound to every activity result.\<close>

definition on_activity_result ::
  "env \<Rightarrow> state \<Rightarrow> int \<Rightarrow> int \<Rightarrow> intent option \<Rightarrow> (exn + unit) \<times> state" where
  "on_activity_result e s request_code result_code data =
     (case data of
        None \<Rightarrow> (Inr (), s)
      | Some d \<Rightarrow>
          if result_code \<noteq> Activity_RESULT_OK e then (Inr (), s)
          else if request_code = select_code s then
            (case resolve_selection e d of
               (r, ev) \<Rightarrow>
                 (let s1 = s\<lparr>events := events s @ ev\<rparr>
                  in case r of
                       Inl x \<Rightarrow> (Inl x, s1)
                     | Inr sel \<Rightarrow>
                         (let s2 = s1\<lparr>selection := PList sel\<rparr>
                          in if api_version e > 28 then
                               (case cache_first e d sel s2 of
                                  (Inl x, s3) \<Rightarrow> (Inl x, s3)
                                | (Inr cache_file, s3) \<Rightarrow>
                                    (Inr (), call_handler [PStr cache_file] s3))
                             else (Inr (), call_handler sel s2))))
          else (Inr (), s))"

text \<open>
  A sequence of deliveries: each result reaches the listener in turn; an exception
  of one call ends that call only.
\<close>

fun deliver :: "env \<Rightarrow> state \<Rightarrow> (int \<times> int \<times> intent option) list \<Rightarrow> state" where
  "deliver e s [] = s"
| "deliver e s ((request_code, result_code, data) # rest) =
     deliver e (snd (on_activity_result e s request_code result_code data)) rest"

text \<open>The handler calls among a list of events, and those a state has seen.\<close>

definition calls_of :: "event list \<Rightarrow> (callback \<times> pyval list) list" where
  "calls_of evs =
     concat (map (\<lambda>ev. case ev of HandleSelection cb arg \<Rightarrow> [(cb, arg)] | _ \<Rightarrow> []) evs)"

definition handler_calls :: "state \<Rightarrow> (callback \<times> pyval list) list" where
  "handler_calls s = calls_of (events s)"

text \<open>
  What stands for a registered operation in this class: the code its activity was
  started with and the handler its result goes to.
\<close>

definition registration :: "state \<Rightarrow> int \<times> callback" where
  "registration s = (select_code s, handle_selection s)"

subsection \<open>The staged search as the specification words it\<close>

text \<open>
  The outcomes of the attempts of a staged search, in order: a provider error is
  skipped, any other exception ends the search, the first non-empty value wins, and
  exhausting the attempts yields null.
\<close>

fun first_nonempty :: "(exn + string option) list \<Rightarrow> exn + string option" where
  "first_nonempty [] = Inr None"
| "first_nonempty (Inl x # rs) = (if x = JavaException then first_nonempty rs else Inl x)"
| "first_nonempty (Inr p # rs) = (if truthy p then Inr p else first_nonempty rs)"

text \<open>
  The three attempts on a content locator of an unrecognised authority, for which
  \<^verbatim>\<open>file_name\<close> and \<^verbatim>\<open>selection\<close> are \<^verbatim>\<open>None\<close>: the \<^verbatim>\<open>_data\<close> query with the
  filter argument as it is, the same query with the argument wrapped in a list, and
  the display-name query.
\<close>

definition data_attempt :: "env \<Rightarrow> uri \<Rightarrow> string option eff" where
  "data_attempt e u = parse_content e u (Some [''_data'']) None ArgsNone False"

definition wrapped_attempt :: "env \<Rightarrow> uri \<Rightarrow> string option eff" where
  "wrapped_attempt e u = parse_content e u (Some [''_data'']) None (ArgsList [None]) False"

definition display_name_attempt :: "env \<Rightarrow> uri \<Rightarrow> string option eff" where
  "display_name_attempt e u = parse_content e u (Some [''_display_name'']) None ArgsNone False"

text \<open>The value of \<open>path\<close> when the \<^verbatim>\<open>finally\<close> clause is entered.\<close>

definition path_after_data :: "env \<Rightarrow> uri \<Rightarrow> string option" where
  "path_after_data e u =
     (case fst (data_attempt e u) of
        Inr p \<Rightarrow> p
      | Inl x \<Rightarrow>
          if x = JavaException then
            (case fst (wrapped_attempt e u) of Inr p \<Rightarrow> p | Inl y \<Rightarrow> None)
          else None)"

subsection \<open>An example platform\<close>

text \<open>A cursor over a table given by its column names and its rows of cells.\<close>

fun column_index :: "string \<Rightarrow> string list \<Rightarrow> int" where
  "column_index name [] = - 1"
| "column_index name (c # cs) =
     (if name = c then 0
      else (let i = column_index name cs in if i = - 1 then - 1 else i + 1))"

definition table_cursor :: "string list \<Rightarrow> string option list list \<Rightarrow> cursor" where
  "table_cursor cols rws =
     \<lparr>getColumnIndex = (\<lambda>name. column_index name cols),
      getColumnCount = int (length cols),
      cursor_rows =
        map (\<lambda>r i. if 0 \<le> i \<and> i < int (length r) then Inr (r ! nat i) else Inl JavaException) rws\<rparr>"

text \<open>
  Locators of the example: \<open>a\<close> and \<open>c\<close> resolve to a path, \<open>b\<close> has no row, \<open>x\<close>
  makes every query throw, \<open>t\<close> is a table of two rows and two columns; \<open>ext\<close> is a
  document of the local storage provider; \<open>dl 7\<close>, \<open>dl 8\<close> and \<open>dl 9\<close> are documents
  of the downloads provider.
\<close>

definition ex_a :: uri where "ex_a = Uri ''content://ex/a''"
definition ex_b :: uri where "ex_b = Uri ''content://ex/b''"
definition ex_c :: uri where "ex_c = Uri ''content://ex/c''"
definition ex_x :: uri where "ex_x = Uri ''content://ex/x''"
definition ex_t :: uri where "ex_t = Uri ''content://ex/t''"
definition ex_ext :: uri where "ex_ext = Uri ''content://ext/f''"
definition ex_dl :: "int \<Rightarrow> uri" where "ex_dl n = WithAppendedId (Uri ''content://dl'') n"

definition ex_query ::
  "uri \<Rightarrow> string list option \<Rightarrow> string option \<Rightarrow> selargs \<Rightarrow> exn + cursor option" where
  "ex_query u proj sel args =
     (if u = ex_a then Inr (Some (table_cursor [''_data''] [[Some ''/data/a.txt'']]))
      else if u = ex_c then Inr (Some (table_cursor [''_data''] [[Some ''/data/c.txt'']]))
      else if u = ex_b then Inr (Some (table_cursor [''_data''] []))
      else if u = ex_t then
        Inr (Some (table_cursor [''k'', ''v''] [[Some ''1'', Some ''2''], [Some ''3'', Some ''4'']]))
      else if u = ex_x then Inl JavaException
      else if u = ex_dl 7 then Inl JavaException
      else if u = ex_dl 9 then
        Inr (Some (table_cursor [''_display_name''] [[Some ''report.pdf'']]))
      else if u = WithAppendedId (Uri ''content://downloads/public_downloads'') 7 then
        Inl JavaException
      else if u = WithAppendedId (Uri ''content://downloads/my_downloads'') 7 then
        Inr (Some (table_cursor [''_data''] []))
      else if u = WithAppendedId (Uri ''content://downloads/all_downloads'') 7 then
        Inr (Some (table_cursor [''_data''] [[Some ''data/foo.txt'']]))
      else Inr (Some (table_cursor [] [])))"

definition ex_env :: "int \<Rightarrow> env" where
  "ex_env api =
     \<lparr>api_version = api,
      Activity_RESULT_OK = - 1,
      DIRECTORY_DOCUMENTS = ''Documents'',
      downloads_dir = ''/sd/Download'',
      external_storage_dir = ''/sd'',
      sdcard_dir = Some ''/storage/1234-5678'',
      IMedia_EXTERNAL_CONTENT_URI = Uri ''content://media/external/images/media'',
      VMedia_EXTERNAL_CONTENT_URI = Uri ''content://media/external/video/media'',
      AMedia_EXTERNAL_CONTENT_URI = Uri ''content://media/external/audio/media'',
      Files_external_uri = Uri ''content://media/external/file'',
      getAuthority =
        (\<lambda>u. if u = ex_ext then Some ''com.android.externalstorage.documents''
             else if u \<in> {ex_dl 7, ex_dl 8, ex_dl 9} then
               Some ''com.android.providers.downloads.documents''
             else Some ''ex''),
      getScheme = (\<lambda>u. Some ''content''),
      getPath = (\<lambda>u. None),
      getDocumentId =
        (\<lambda>u. if u = ex_ext then Inr ''home:f.txt''
             else if u = ex_dl 7 then Inr ''7''
             else if u = ex_dl 8 then Inr ''8''
             else if u = ex_dl 9 then Inr ''9''
             else Inl JavaException),
      Long_valueOf =
        (\<lambda>s. if s = ''7'' then Inr 7 else if s = ''8'' then Inr 8
             else if s = ''9'' then Inr 9 else Inl JavaException),
      grantUriPermission = (\<lambda>u. None),
      query = ex_query,
      getExternalCacheDir = Some ''/cache'',
      io_fails = (\<lambda>ev. None)\<rparr>"

text \<open>A chooser with an operation opened for the caller's function \<open>1\<close>.\<close>

definition ex_state :: state where
  "ex_state = snd (open_file (init 0 0 {}) (Some (OnSelection 1)) None None)"

text \<open>
  Result payloads of the example: a single pick of \<open>a\<close>; a pick of \<open>a\<close> and \<open>c\<close>;
  a single pick of \<open>b\<close>, which resolves to nothing; a pick of three with \<open>b\<close> in the
  middle; and a pick of three whose middle item makes the provider throw.
\<close>

definition ex_single :: intent where
  "ex_single = \<lparr>getClipData = None, getData = Some ex_a\<rparr>"

definition ex_pair :: intent where
  "ex_pair = \<lparr>getClipData = Some [Some ex_a, Some ex_c], getData = Some ex_a\<rparr>"

definition ex_null :: intent where
  "ex_null = \<lparr>getClipData = None, getData = Some ex_b\<rparr>"

definition ex_triple :: intent where
  "ex_triple = \<lparr>getClipData = Some [Some ex_a, Some ex_b, Some ex_c], getData = None\<rparr>"

definition ex_raising :: intent where
  "ex_raising = \<lparr>getClipData = Some [Some ex_a, Some ex_x, Some ex_c], getData = Some ex_c\<rparr>"

section \<open>Properties\<close>

subsection \<open>The query executor\<close>

lemma py_range_nat: "py_range (int n) = map int [0..<n]"
  unfolding py_range_def
  by (induction n) (simp_all add: upto_rec2)

lemma read_columns_map:
  "(\<And>i. i \<in> set ns \<Longrightarrow> row (int i) = Inr (g i)) \<Longrightarrow>
   read_columns row (map int ns) = Inr (map g ns)"
  by (induction ns) simp_all

lemma read_columns_row:
  "read_columns (\<lambda>i. if 0 \<le> i \<and> i < int (length (map Some r)) then Inr (map Some r ! nat i) else Inl JavaException)
     (py_range (int (length r))) = Inr (map Some r)"
proof -
  have "read_columns (\<lambda>i. if 0 \<le> i \<and> i < int (length (map Some r)) then Inr (map Some r ! nat i) else Inl JavaException)
     (map int [0..<length r]) = Inr (map (\<lambda>i. Some (r ! i)) [0..<length r])"
    by (rule read_columns_map) simp
  also have "map (\<lambda>i. Some (r ! i)) [0..<length r] = map Some r"
    by (rule nth_equalityI) simp_all
  finally show ?thesis
    by (simp only: py_range_nat)
qed

lemma read_rows_table:
  "\<forall>r \<in> set rws. length r = n \<Longrightarrow>
   read_rows (cursor_rows (table_cursor cols (map (map Some) rws))) (py_range (int n))
     = Inr (map Some (concat rws))"
proof (induction rws)
  case Nil
  then show ?case by (simp add: table_cursor_def)
next
  case (Cons r rws)
  then have "length r = n" by simp
  with Cons show ?case
    using read_columns_row [of r]
    by (simp add: table_cursor_def)
qed

lemma those_map_Some: "those (map Some xs) = Some xs"
  by (induction xs) simp_all

lemma join_cells_not_None: "join_cells cells \<noteq> Inr None"
  by (simp add: join_cells_def split: option.splits)

text \<open>
  Claim C8, as the code has it. In aggregate-all mode \<^verbatim>\<open>_parse_content\<close> returns the
  cells of every returned row, rows in order and columns in order within a row,
  joined with \<^verbatim>\<open>/\<close>. It never returns null: on an empty result set the join of no
  cells is the empty string.
\<close>

theorem aggregate_all_joins_cells:
  "(grantUriPermission e u = None \<and>
    query e u proj sel args =
      Inr (Some (table_cursor cols (map (map Some) rws))) \<and>
    (\<forall>r \<in> set rws. length r = length cols) \<longrightarrow>
      fst (parse_content e u proj sel args True) =
        Inr (Some (str_join ''/'' (concat rws)))) \<and>
   fst (parse_content e u proj sel args True) \<noteq> Inr None"
proof (intro conjI impI)
  assume a: "grantUriPermission e u = None \<and>
    query e u proj sel args =
      Inr (Some (table_cursor cols (map (map Some) rws))) \<and>
    (\<forall>r \<in> set rws. length r = length cols)"
  then have "read_rows (cursor_rows (table_cursor cols (map (map Some) rws)))
      (py_range (int (length cols))) = Inr (map Some (concat rws))"
    by (intro read_rows_table) simp
  moreover have "getColumnCount (table_cursor cols (map (map Some) rws)) = int (length cols)"
    by (simp add: table_cursor_def)
  ultimately show "fst (parse_content e u proj sel args True) =
        Inr (Some (str_join ''/'' (concat rws)))"
    using a by (simp add: parse_content_def read_cursor_def join_cells_def those_map_Some)
next
  show "fst (parse_content e u proj sel args True) \<noteq> Inr None"
    by (auto simp: parse_content_def read_cursor_def join_cells_not_None
             split: option.splits sum.splits)
qed


subsection \<open>Evaluating the example platform\<close>

lemmas ex_uri_defs = ex_a_def ex_b_def ex_c_def ex_x_def ex_t_def ex_ext_def ex_dl_def

text \<open>The table of two rows and two columns of the example platform.\<close>

theorem aggregate_all_joins_cells_witness:
  "grantUriPermission (ex_env 28) ex_t = None \<and>
   query (ex_env 28) ex_t None None ArgsNone =
     Inr (Some (table_cursor [''k'', ''v'']
       (map (map Some) [[''1'', ''2''], [''3'', ''4'']]))) \<and>
   fst (parse_content (ex_env 28) ex_t None None ArgsNone True) = Inr (Some ''1/2/3/4'')"
  using aggregate_all_joins_cells [of "ex_env 28" ex_t None None ArgsNone
      "[''k'', ''v'']" "[[''1'', ''2''], [''3'', ''4'']]"]
  by (simp add: ex_env_def ex_query_def ex_uri_defs)

text \<open>
  An empty result set in aggregate-all mode: the result is the empty string, not null.
\<close>

theorem aggregate_all_empty_counterexample:
  "query (ex_env 28) ex_b None None ArgsNone = Inr (Some (table_cursor [''_data''] [])) \<and>
   cursor_rows (table_cursor [''_data''] []) = [] \<and>
   fst (parse_content (ex_env 28) ex_b None None ArgsNone True) = Inr (Some []) \<and>
   fst (parse_content (ex_env 28) ex_b None None ArgsNone True) \<noteq> Inr None"
  by (simp add: ex_env_def ex_query_def ex_uri_defs parse_content_def read_cursor_def
      table_cursor_def join_cells_def py_range_def)

subsection \<open>Facts of the example platform\<close>

lemma ex_env_fields:
  "api_version (ex_env api) = api"
  "Activity_RESULT_OK (ex_env api) = - 1"
  "getExternalCacheDir (ex_env api) = Some ''/cache''"
  "io_fails (ex_env api) = (\<lambda>ev. None)"
  "grantUriPermission (ex_env api) u = None"
  "query (ex_env api) = ex_query"
  by (simp_all add: ex_env_def)

lemma ex_state_fields:
  "select_code ex_state = 123456"
  "handle_selection ex_state = OnSelection 1"
  "handler_calls ex_state = []"
  "registration ex_state = (123456, OnSelection 1)"
  by (simp_all add: ex_state_def open_file_def init_def randint_def handler_calls_def
      calls_of_def registration_def intent_type_def)

lemma ex_resolve_single:
  "fst (resolve_selection (ex_env api) ex_single) = Inr [PStr ''/data/a.txt'']"
  by code_simp

lemma ex_resolve_pair:
  "fst (resolve_selection (ex_env api) ex_pair) = Inr [PStr ''/data/a.txt'', PStr ''/data/c.txt'']"
  by code_simp

subsection \<open>Results that are not for the chooser\<close>

text \<open>
  Claim C4. A result with a null payload, a status other than \<^verbatim>\<open>RESULT_OK\<close>, or a
  request code other than the chooser's \<open>select_code\<close> leaves the listener with no
  effect at all: the state after the call is the state before it, so no handler was
  called, no locator was resolved or queried, and the registration is as it was.
\<close>

theorem foreign_result_is_dropped:
  "data = None \<or> result_code \<noteq> Activity_RESULT_OK e \<or> request_code \<noteq> select_code s \<Longrightarrow>
   on_activity_result e s request_code result_code data = (Inr (), s)"
  by (auto simp: on_activity_result_def split: option.splits)

text \<open>The three ways a result is dropped, on the example.\<close>

theorem foreign_result_is_dropped_witness:
  "on_activity_result (ex_env 28) ex_state 123456 (- 1) None = (Inr (), ex_state) \<and>
   on_activity_result (ex_env 28) ex_state 123456 0
     (Some \<lparr>getClipData = None, getData = Some ex_a\<rparr>) = (Inr (), ex_state) \<and>
   on_activity_result (ex_env 28) ex_state 5 (- 1)
     (Some \<lparr>getClipData = None, getData = Some ex_a\<rparr>) = (Inr (), ex_state)"
  using foreign_result_is_dropped [of None "- 1" "ex_env 28" 123456 ex_state]
    foreign_result_is_dropped [of "Some \<lparr>getClipData = None, getData = Some ex_a\<rparr>" 0
      "ex_env 28" 123456 ex_state]
    foreign_result_is_dropped [of "Some \<lparr>getClipData = None, getData = Some ex_a\<rparr>" "- 1"
      "ex_env 28" 5 ex_state]
  by (simp add: ex_env_fields ex_state_fields)

subsection \<open>The local storage provider\<close>

lemma str_split_no_sep: "c \<notin> set s \<Longrightarrow> str_split c s = [s]"
  by (induction s) auto

lemma str_split_once:
  "c \<notin> set a \<Longrightarrow> c \<notin> set b \<Longrightarrow> str_split c (a @ c # b) = [a, b]"
  by (induction a) (auto simp: str_split_no_sep)

lemma join_relative:
  "root \<noteq> [] \<Longrightarrow> last root \<noteq> CHR ''/'' \<Longrightarrow> \<not> starts_with ''/'' name \<Longrightarrow>
   join root name = root @ ''/'' @ name"
  by (simp add: join_def)

text \<open>
  Claim C9. For a locator of the local storage provider whose document id is
  \<open>type:name\<close> (one colon), \<^verbatim>\<open>_resolve_uri\<close> returns the join of a root with \<open>name\<close>
  and issues no platform call: the primary storage root for \<open>primary\<close>, its documents
  subdirectory for \<open>home\<close>, the removable-media root when \<open>type\<close> occurs in it, and the
  primary root otherwise. The join is \<^verbatim>\<open>posixpath.join\<close>; for a root that is not
  empty and does not end with the separator and a name that does not start with it,
  that is \<open>root/name\<close>.
\<close>

theorem external_documents_path:
  assumes "getAuthority e u = Some ''com.android.externalstorage.documents''"
    and "getScheme e u = Some sch"
    and "getDocumentId e u = Inr (ty @ '':'' @ name)"
    and "CHR '':'' \<notin> set ty" and "CHR '':'' \<notin> set name"
  shows "(ty = ''primary'' \<longrightarrow>
            resolve_uri e (Some u) = (Inr (Some (join (external_storage_dir e) name)), [])) \<and>
         (ty = ''home'' \<longrightarrow>
            resolve_uri e (Some u) =
              (Inr (Some (join (join (external_storage_dir e) (DIRECTORY_DOCUMENTS e)) name)), [])) \<and>
         (ty \<noteq> ''primary'' \<and> ty \<noteq> ''home'' \<and> sdcard_dir e = Some sd \<and> sd \<noteq> [] \<and> str_in ty sd \<longrightarrow>
            resolve_uri e (Some u) = (Inr (Some (join sd name)), [])) \<and>
         (ty \<noteq> ''primary'' \<and> ty \<noteq> ''home'' \<and>
            (sdcard_dir e = None \<or> sdcard_dir e = Some [] \<or>
             (\<exists>sd'. sdcard_dir e = Some sd' \<and> \<not> str_in ty sd')) \<longrightarrow>
            resolve_uri e (Some u) = (Inr (Some (join (external_storage_dir e) name)), [])) \<and>
         (\<forall>root. root \<noteq> [] \<and> last root \<noteq> CHR ''/'' \<and> \<not> starts_with ''/'' name \<longrightarrow>
            join root name = root @ ''/'' @ name)"
proof -
  have split: "str_split CHR '':'' (ty @ '':'' @ name) = [ty, name]"
    using assms(4,5) by (simp add: str_split_once)
  have r: "resolve_uri e (Some u) =
      (case handle_external_documents e u of Inl x \<Rightarrow> (Inl x, []) | Inr p \<Rightarrow> (Inr (Some p), []))"
    using assms(1,2) by (simp add: resolve_uri_def)
  have h: "handle_external_documents e u =
      Inr (join (if ty = ''primary'' then external_storage_dir e
                 else if ty = ''home'' then join (external_storage_dir e) (DIRECTORY_DOCUMENTS e)
                 else (case sdcard_dir e of
                         None \<Rightarrow> external_storage_dir e
                       | Some sdcard_storage \<Rightarrow>
                           if sdcard_storage \<noteq> [] \<and> str_in ty sdcard_storage then sdcard_storage
                           else external_storage_dir e)) name)"
    using assms(3) split by (simp add: handle_external_documents_def Let_def)
  show ?thesis
    unfolding r h by (auto simp: join_relative)
qed

text \<open>The document \<open>home:f.txt\<close> of the example.\<close>

theorem external_documents_path_witness:
  "getDocumentId (ex_env 28) ex_ext = Inr (''home'' @ '':'' @ ''f.txt'') \<and>
   resolve_uri (ex_env 28) (Some ex_ext) = (Inr (Some ''/sd/Documents/f.txt''), [])"
  using external_documents_path [of "ex_env 28" ex_ext "''content''" "''home''" "''f.txt''"]
  by (simp add: ex_env_def ex_uri_defs join_def)

subsection \<open>Resolution calls no handler\<close>

lemma calls_of_append: "calls_of (a @ b) = calls_of a @ calls_of b"
  by (simp add: calls_of_def)

lemma calls_of_simps:
  "calls_of [] = []"
  "calls_of (ev # evs) =
     (case ev of HandleSelection cb arg \<Rightarrow> [(cb, arg)] | _ \<Rightarrow> []) @ calls_of evs"
  by (simp_all add: calls_of_def)

lemma calls_parse_content: "calls_of (snd (parse_content e u p s a i)) = []"
  by (simp add: parse_content_def calls_of_def split: option.splits)

lemma calls_try_uris_loop: "calls_of (snd (try_uris_loop e ia cs path)) = []"
proof (induction cs arbitrary: path ia)
  case Nil
  show ?case by (simp add: calls_of_simps)
next
  case (Cons down rest)
  show ?case
    by (simp add: split_beta calls_of_append calls_of_simps calls_parse_content Cons.IH
        split: sum.splits)
qed

lemma calls_handle_downloads: "calls_of (snd (handle_downloads_documents e u)) = []"
  by (simp add: handle_downloads_documents_def Let_def split_beta calls_of_append
      calls_of_simps calls_parse_content calls_try_uris_loop split: sum.splits)

lemma calls_finally_clause:
  "calls_of (snd (finally_clause e orig path pending ev)) = calls_of ev"
  by (simp add: finally_clause_def split_beta calls_of_append calls_parse_content
      split: sum.splits option.splits)

lemma calls_content_attempts:
  "calls_of (snd (content_attempts e u orig sel fn path0)) = []"
  by (simp add: content_attempts_def split_beta calls_finally_clause calls_of_append
      calls_parse_content split: sum.splits)

lemma calls_by_scheme: "calls_of (snd (by_scheme e sch u orig sel fn path)) = []"
  by (simp add: by_scheme_def calls_content_attempts calls_of_simps)

lemma calls_resolve_uri: "calls_of (snd (resolve_uri e uo)) = []"
  by (simp add: resolve_uri_def Let_def split_beta calls_of_append calls_of_simps
      calls_handle_downloads calls_by_scheme split: option.splits sum.splits)

lemma calls_resolve_items: "calls_of (snd (resolve_items e items)) = []"
  by (induction items)
    (simp_all add: split_beta calls_of_append calls_of_simps calls_resolve_uri
      split: sum.splits)

lemma calls_resolve_selection: "calls_of (snd (resolve_selection e d)) = []"
  by (simp add: resolve_selection_def split_beta calls_of_append calls_of_simps
      calls_resolve_uri calls_resolve_items split: option.splits sum.splits)


lemma io_keeps:
  assumes "calls_of [ev] = []"
  shows "registration (snd (io e ev s)) = registration s"
    and "selection (snd (io e ev s)) = selection s"
    and "handler_calls (snd (io e ev s)) = handler_calls s"
  using assms
  by (simp_all add: io_def registration_def handler_calls_def calls_of_append)

lemma handler_calls_files: "handler_calls (s\<lparr>files := f\<rparr>) = handler_calls s"
  by (simp add: handler_calls_def)

lemma registration_files: "registration (s\<lparr>files := f\<rparr>) = registration s"
  by (simp add: registration_def)

lemma ensure_dir_keeps:
  "registration (snd (ensure_dir e p s)) = registration s"
  "selection (snd (ensure_dir e p s)) = selection s"
  "handler_calls (snd (ensure_dir e p s)) = handler_calls s"
  by (simp_all add: ensure_dir_def split_beta io_keeps calls_of_simps handler_calls_files registration_files
      split: option.splits)

lemma remove_stale_keeps:
  "registration (snd (remove_stale e p s)) = registration s"
  "selection (snd (remove_stale e p s)) = selection s"
  "handler_calls (snd (remove_stale e p s)) = handler_calls s"
  by (simp_all add: remove_stale_def split_beta io_keeps calls_of_simps handler_calls_files registration_files
      split: option.splits)

lemma copy_in_keeps:
  "registration (snd (copy_in e src cf s)) = registration s"
  "selection (snd (copy_in e src cf s)) = selection s"
  "handler_calls (snd (copy_in e src cf s)) = handler_calls s"
  by (simp_all add: copy_in_def split_beta io_keeps calls_of_simps handler_calls_files registration_files
      split: option.splits)

lemma cache_first_keeps:
  "registration (snd (cache_first e d sel s)) = registration s"
  "selection (snd (cache_first e d sel s)) = selection s"
  "handler_calls (snd (cache_first e d sel s)) = handler_calls s"
  by (simp_all add: cache_first_def Let_def split_beta ensure_dir_keeps remove_stale_keeps
      copy_in_keeps split: list.splits sum.splits option.splits)

lemma cache_first_path:
  "fst (cache_first e d sel s) = Inr cf \<Longrightarrow>
   \<exists>p rest cd. sel = PStr p # rest \<and> getExternalCacheDir e = Some cd \<and>
     cf = join (join cd ''FromSharedStorage'') (basename p)"
  by (auto simp: cache_first_def Let_def split_beta basename_py_def
      split: list.splits sum.splits option.splits pyval.splits)

lemma cache_first_not_a_path:
  "first = PNone \<or> first = PList [] \<Longrightarrow>
   cache_first e d (first # rest) s = (Inl TypeError, s)"
  by (auto simp: cache_first_def basename_py_def)

subsection \<open>The listener and the registration\<close>

lemma call_handler_calls:
  "handler_calls (call_handler arg s) = handler_calls s @ [(handle_selection s, arg)]"
  "registration (call_handler arg s) = registration s"
  "selection (call_handler arg s) = selection s"
  by (simp_all add: call_handler_def handler_calls_def registration_def calls_of_append
      calls_of_simps)

lemma resolved_state:
  "registration (s\<lparr>events := events s @ ev, selection := v\<rparr>) = registration s"
  "calls_of ev = [] \<Longrightarrow>
   handler_calls (s\<lparr>events := events s @ ev, selection := v\<rparr>) = handler_calls s"
  "calls_of ev = [] \<Longrightarrow> handler_calls (s\<lparr>events := events s @ ev\<rparr>) = handler_calls s"
  "registration (s\<lparr>events := events s @ ev\<rparr>) = registration s"
  by (simp_all add: registration_def handler_calls_def calls_of_append)

lemma cache_first_handler:
  "handle_selection (snd (cache_first e d sel s)) = handle_selection s"
  using cache_first_keeps(1) [of e d sel s] by (simp add: registration_def)

lemma on_activity_result_registration:
  "registration (snd (on_activity_result e s rc res data)) = registration s"
  by (simp add: on_activity_result_def Let_def split_beta call_handler_calls resolved_state
      cache_first_keeps split: option.splits sum.splits)

lemma on_activity_result_matched:
  "on_activity_result e s (select_code s) (Activity_RESULT_OK e) (Some d) =
     (case fst (resolve_selection e d) of
        Inl x \<Rightarrow> (Inl x, s\<lparr>events := events s @ snd (resolve_selection e d)\<rparr>)
      | Inr sel \<Rightarrow>
          if api_version e > 28 then
            (case fst (cache_first e d sel
                    (s\<lparr>events := events s @ snd (resolve_selection e d), selection := PList sel\<rparr>)) of
               Inl x \<Rightarrow>
                 (Inl x, snd (cache_first e d sel
                    (s\<lparr>events := events s @ snd (resolve_selection e d), selection := PList sel\<rparr>)))
             | Inr cf \<Rightarrow>
                 (Inr (), call_handler [PStr cf] (snd (cache_first e d sel
                    (s\<lparr>events := events s @ snd (resolve_selection e d), selection := PList sel\<rparr>)))))
          else (Inr (), call_handler sel
                  (s\<lparr>events := events s @ snd (resolve_selection e d), selection := PList sel\<rparr>)))"
  by (simp add: on_activity_result_def Let_def split: prod.splits sum.splits)

lemma on_activity_result_unmatched:
  "data = None \<or> res \<noteq> Activity_RESULT_OK e \<or> rc \<noteq> select_code s \<Longrightarrow>
   on_activity_result e s rc res data = (Inr (), s)"
  by (auto simp: on_activity_result_def split: option.splits)

lemma on_activity_result_no_call:
  assumes "fst (on_activity_result e s rc res data) \<noteq> Inr () \<or> data = None \<or>
     res \<noteq> Activity_RESULT_OK e \<or> rc \<noteq> select_code s"
  shows "handler_calls (snd (on_activity_result e s rc res data)) = handler_calls s"
proof (cases "data = None \<or> res \<noteq> Activity_RESULT_OK e \<or> rc \<noteq> select_code s")
  case True
  then show ?thesis by (simp add: on_activity_result_unmatched)
next
  case False
  then obtain d where d: "data = Some d" "res = Activity_RESULT_OK e" "rc = select_code s"
    by auto
  with assms have "fst (on_activity_result e s (select_code s) (Activity_RESULT_OK e) (Some d)) \<noteq> Inr ()"
    by simp
  then show ?thesis
    unfolding d on_activity_result_matched
    by (simp add: resolved_state cache_first_keeps calls_resolve_selection
        split: sum.splits if_splits)
qed

lemma on_activity_result_one_call:
  assumes "fst (on_activity_result e s rc res data) = Inr ()" and "data \<noteq> None"
    and "res = Activity_RESULT_OK e" and "rc = select_code s"
  shows "\<exists>arg. handler_calls (snd (on_activity_result e s rc res data)) =
     handler_calls s @ [(handle_selection s, arg)]"
proof -
  obtain d where d: "data = Some d" using assms(2) by auto
  show ?thesis
    using assms(1)
    unfolding d assms(3,4) on_activity_result_matched
    by (auto simp: call_handler_calls resolved_state cache_first_keeps cache_first_handler
        calls_resolve_selection split: sum.splits if_splits)
qed

lemma deliver_registration: "registration (deliver e s ds) = registration s"
  by (induction ds arbitrary: s) (auto simp: on_activity_result_registration)

text \<open>
  Claim C1, as the code has it. The listener never removes or changes a registration:
  the select code and the handler are the same after any sequence of deliveries. A
  delivery calls the handler exactly once when it carries the select code, the status
  \<^verbatim>\<open>RESULT_OK\<close> and a payload, and the listener returns without raising; any other
  delivery calls no handler. So a second result with the same code calls the handler
  again.
\<close>

theorem dispatch_keeps_registration:
  "registration (deliver e s ds) = registration s \<and>
   registration (snd (on_activity_result e s rc res data)) = registration s \<and>
   (fst (on_activity_result e s rc res data) = Inr () \<and> data \<noteq> None \<and>
      res = Activity_RESULT_OK e \<and> rc = select_code s \<longrightarrow>
    (\<exists>arg. handler_calls (snd (on_activity_result e s rc res data)) =
       handler_calls s @ [(handle_selection s, arg)])) \<and>
   (fst (on_activity_result e s rc res data) \<noteq> Inr () \<or> data = None \<or>
      res \<noteq> Activity_RESULT_OK e \<or> rc \<noteq> select_code s \<longrightarrow>
    handler_calls (snd (on_activity_result e s rc res data)) = handler_calls s)"
  using deliver_registration [of e s ds] on_activity_result_registration [of e s rc res data]
    on_activity_result_one_call [of e s rc res data]
    on_activity_result_no_call [of e s rc res data]
  by blast

lemma listener_calls_unscoped:
  assumes "api_version e \<le> 28" and "fst (resolve_selection e d) = Inr sel"
    and "rc = select_code s" and "res = Activity_RESULT_OK e"
  shows "fst (on_activity_result e s rc res (Some d)) = Inr ()"
    and "handler_calls (snd (on_activity_result e s rc res (Some d))) =
           handler_calls s @ [(handle_selection s, sel)]"
  using assms
  by (simp_all add: on_activity_result_matched call_handler_calls resolved_state
      calls_resolve_selection)

lemma cache_first_succeeds:
  assumes "io_fails e = (\<lambda>ev. None)" and "getExternalCacheDir e = Some cd"
  shows "fst (cache_first e d (PStr p # rest) s) =
           Inr (join (join cd ''FromSharedStorage'') (basename p))"
  using assms
  by (simp add: cache_first_def basename_py_def Let_def ensure_dir_def remove_stale_def
      copy_in_def io_def)

lemma listener_calls_scoped:
  assumes "api_version e > 28" and "io_fails e = (\<lambda>ev. None)"
    and "getExternalCacheDir e = Some cd"
    and "fst (resolve_selection e d) = Inr (PStr p # rest)"
    and "rc = select_code s" and "res = Activity_RESULT_OK e"
  shows "fst (on_activity_result e s rc res (Some d)) = Inr ()"
    and "handler_calls (snd (on_activity_result e s rc res (Some d))) =
           handler_calls s @
             [(handle_selection s, [PStr (join (join cd ''FromSharedStorage'') (basename p))])]"
    and "selection (snd (on_activity_result e s rc res (Some d))) = PList (PStr p # rest)"
  using assms
  by (simp_all add: on_activity_result_matched cache_first_succeeds call_handler_calls
      cache_first_keeps cache_first_handler resolved_state calls_resolve_selection)

text \<open>
  The same successful result delivered twice: the registration is unchanged and the
  handler has been called twice.
\<close>

theorem dispatch_twice_counterexample:
  "registration (deliver (ex_env 28) ex_state
      [(123456, - 1, Some ex_single), (123456, - 1, Some ex_single)]) = registration ex_state \<and>
   handler_calls (deliver (ex_env 28) ex_state
      [(123456, - 1, Some ex_single), (123456, - 1, Some ex_single)]) =
     [(OnSelection 1, [PStr ''/data/a.txt'']), (OnSelection 1, [PStr ''/data/a.txt''])]"
proof -
  define s1 where "s1 = snd (on_activity_result (ex_env 28) ex_state 123456 (- 1) (Some ex_single))"
  have r1: "registration s1 = (123456, OnSelection 1)"
    unfolding s1_def by (simp add: on_activity_result_registration ex_state_fields)
  then have f1: "select_code s1 = 123456" "handle_selection s1 = OnSelection 1"
    by (simp_all add: registration_def)
  have c1: "handler_calls s1 = [(OnSelection 1, [PStr ''/data/a.txt''])]"
    unfolding s1_def
    using listener_calls_unscoped(2) [of "ex_env 28" ex_single _ 123456 ex_state "- 1"]
    by (simp add: ex_env_fields ex_state_fields ex_resolve_single)
  have c2: "handler_calls (snd (on_activity_result (ex_env 28) s1 123456 (- 1) (Some ex_single))) =
      [(OnSelection 1, [PStr ''/data/a.txt'']), (OnSelection 1, [PStr ''/data/a.txt''])]"
    using listener_calls_unscoped(2) [of "ex_env 28" ex_single _ 123456 s1 "- 1"]
    by (simp add: ex_env_fields f1 c1 ex_resolve_single)
  have calls: "handler_calls (deliver (ex_env 28) ex_state
      [(123456, - 1, Some ex_single), (123456, - 1, Some ex_single)]) =
     [(OnSelection 1, [PStr ''/data/a.txt'']), (OnSelection 1, [PStr ''/data/a.txt''])]"
    using c2 by (simp add: s1_def)
  have reg: "registration (deliver (ex_env 28) ex_state
      [(123456, - 1, Some ex_single), (123456, - 1, Some ex_single)]) = registration ex_state"
    by (rule deliver_registration)
  show ?thesis
    by (rule conjI [OF reg calls])
qed

text \<open>One matching delivery on the example.\<close>

theorem dispatch_keeps_registration_witness:
  "fst (on_activity_result (ex_env 28) ex_state 123456 (- 1) (Some ex_single)) = Inr () \<and>
   registration (snd (on_activity_result (ex_env 28) ex_state 123456 (- 1) (Some ex_single))) =
     (123456, OnSelection 1) \<and>
   (\<exists>arg. handler_calls (snd (on_activity_result (ex_env 28) ex_state 123456 (- 1) (Some ex_single)))
      = [(OnSelection 1, arg)])"
proof -
  have a: "fst (on_activity_result (ex_env 28) ex_state 123456 (- 1) (Some ex_single)) = Inr ()"
    using listener_calls_unscoped(1) [of "ex_env 28" ex_single _ 123456 ex_state "- 1"]
    by (simp add: ex_env_fields ex_state_fields ex_resolve_single)
  show ?thesis
    using dispatch_keeps_registration [of "ex_env 28" ex_state "[]" 123456 "- 1" "Some ex_single"] a
    by (simp add: ex_env_fields ex_state_fields)
qed

subsection \<open>The cache copy above API level 28\<close>

text \<open>
  Claim C2, as the code has it. Above API level 28, when the listener returns without
  raising, the handler is called once with a list of exactly one element: the path of
  the cache copy, named after the first item of the selection, under
  \<^verbatim>\<open>FromSharedStorage\<close> in the external cache directory. The other items of the
  selection are not passed to the handler; they remain in the \<open>selection\<close> field.
\<close>

theorem scoped_storage_passes_cache_path_only:
  assumes "api_version e > 28" and "res = Activity_RESULT_OK e" and "rc = select_code s"
    and "on_activity_result e s rc res (Some d) = (Inr (), s')"
  shows "\<exists>p rest cd.
           fst (resolve_selection e d) = Inr (PStr p # rest) \<and>
           selection s' = PList (PStr p # rest) \<and>
           getExternalCacheDir e = Some cd \<and>
           handler_calls s' = handler_calls s @
             [(handle_selection s, [PStr (join (join cd ''FromSharedStorage'') (basename p))])]"
proof -
  obtain r ev where rs: "resolve_selection e d = (r, ev)" by (cases "resolve_selection e d")
  have ev: "calls_of ev = []" using calls_resolve_selection [of e d] rs by simp
  obtain sel where r: "r = Inr sel"
    using assms rs by (cases r) (auto simp: on_activity_result_matched)
  define s2 where "s2 = s\<lparr>events := events s @ ev, selection := PList sel\<rparr>"
  obtain c s3 where cf: "cache_first e d sel s2 = (c, s3)" by (cases "cache_first e d sel s2")
  obtain cache_file where c: "c = Inr cache_file"
    using assms rs r cf by (cases c) (auto simp: on_activity_result_matched s2_def)
  have s': "s' = call_handler [PStr cache_file] s3"
    using assms rs r cf c by (auto simp: on_activity_result_matched s2_def)
  obtain p rest cd where p: "sel = PStr p # rest" "getExternalCacheDir e = Some cd"
    "cache_file = join (join cd ''FromSharedStorage'') (basename p)"
    using cache_first_path [of e d sel s2 cache_file] cf c by auto
  have "handler_calls s3 = handler_calls s" "handle_selection s3 = handle_selection s"
    "selection s3 = PList sel"
    using cache_first_keeps(3) [of e d sel s2] cache_first_handler [of e d sel s2]
      cache_first_keeps(2) [of e d sel s2] cf ev
    by (simp_all add: s2_def resolved_state)
  then show ?thesis
    using s' p rs r by (simp add: call_handler_calls)
qed

text \<open>
  A selection of two items above API level 28: the handler receives one path, not two.
\<close>

theorem scoped_storage_pair_counterexample:
  "fst (resolve_selection (ex_env 29) ex_pair) = Inr [PStr ''/data/a.txt'', PStr ''/data/c.txt''] \<and>
   fst (on_activity_result (ex_env 29) ex_state 123456 (- 1) (Some ex_pair)) = Inr () \<and>
   handler_calls (snd (on_activity_result (ex_env 29) ex_state 123456 (- 1) (Some ex_pair))) =
     [(OnSelection 1, [PStr ''/cache/FromSharedStorage/a.txt''])]"
  using listener_calls_scoped(1,2) [of "ex_env 29" "''/cache''" ex_pair "''/data/a.txt''"
      "[PStr ''/data/c.txt'']" 123456 ex_state "- 1"]
  by (simp add: ex_env_fields ex_state_fields ex_resolve_pair join_def)

text \<open>A single pick above API level 28, on the example.\<close>

theorem scoped_storage_passes_cache_path_only_witness:
  "28 < api_version (ex_env 29) \<and>
   (\<exists>p rest cd.
      fst (resolve_selection (ex_env 29) ex_single) = Inr (PStr p # rest) \<and>
      getExternalCacheDir (ex_env 29) = Some cd \<and>
      handler_calls (snd (on_activity_result (ex_env 29) ex_state 123456 (- 1) (Some ex_single))) =
        [(OnSelection 1, [PStr (join (join cd ''FromSharedStorage'') (basename p))])])"
proof -
  have a: "fst (on_activity_result (ex_env 29) ex_state 123456 (- 1) (Some ex_single)) = Inr ()"
    using listener_calls_scoped(1) [of "ex_env 29" "''/cache''" ex_single "''/data/a.txt''"
      "[]" 123456 ex_state "- 1"]
    by (simp add: ex_env_fields ex_state_fields ex_resolve_single)
  have b: "on_activity_result (ex_env 29) ex_state 123456 (- 1) (Some ex_single) =
      (Inr (), snd (on_activity_result (ex_env 29) ex_state 123456 (- 1) (Some ex_single)))"
    using a by (simp add: prod_eq_iff)
  show ?thesis
    using scoped_storage_passes_cache_path_only [of "ex_env 29" "- 1" 123456 ex_state ex_single, OF _ _ _ b]
    by (auto simp: ex_env_fields ex_state_fields)
qed

text \<open>
  Claim C10. Above API level 28, when the first item of the resolved selection is not
  a path (\<^verbatim>\<open>None\<close> from the single-item branch, or the \<^verbatim>\<open>[]\<close> that stands for a
  failed item of a multiple selection), \<^verbatim>\<open>basename\<close> raises a \<^verbatim>\<open>TypeError\<close> that
  nothing catches: the listener raises and the handler is not called.
\<close>

theorem null_first_item_raises:
  assumes "api_version e > 28" and "res = Activity_RESULT_OK e" and "rc = select_code s"
    and "fst (resolve_selection e d) = Inr (first # rest)"
    and "first = PNone \<or> first = PList []"
  shows "fst (on_activity_result e s rc res (Some d)) = Inl TypeError \<and>
         handler_calls (snd (on_activity_result e s rc res (Some d))) = handler_calls s"
proof -
  have "fst (on_activity_result e s rc res (Some d)) = Inl TypeError"
    using assms cache_first_not_a_path [of first e d rest]
    by (simp add: on_activity_result_matched)
  then show ?thesis
    using on_activity_result_no_call [of e s rc res "Some d"] by simp
qed

lemma ex_resolve_null: "fst (resolve_selection (ex_env api) ex_null) = Inr [PNone]"
  by code_simp

text \<open>A single pick that resolves to nothing, above API level 28.\<close>

theorem null_first_item_raises_witness:
  "28 < api_version (ex_env 29) \<and>
   fst (resolve_selection (ex_env 29) ex_null) = Inr [PNone] \<and>
   fst (on_activity_result (ex_env 29) ex_state 123456 (- 1) (Some ex_null)) = Inl TypeError \<and>
   handler_calls (snd (on_activity_result (ex_env 29) ex_state 123456 (- 1) (Some ex_null))) = []"
  using null_first_item_raises [of "ex_env 29" "- 1" 123456 ex_state ex_null PNone "[]"]
  by (simp add: ex_env_fields ex_state_fields ex_resolve_null)

subsection \<open>The select code\<close>

lemma randint_range: "a \<le> b \<Longrightarrow> a \<le> randint a b r \<and> randint a b r \<le> b"
proof -
  assume "a \<le> b"
  then have "0 < nat (b - a + 1)" by simp
  then have "r mod nat (b - a + 1) < nat (b - a + 1)" by (rule mod_less_divisor)
  then show ?thesis unfolding randint_def using \<open>a \<le> b\<close> by linarith
qed

text \<open>
  Claim C5, as the code has it. The select code is drawn once, at construction, from
  \<open>123456..654321\<close>; the draw depends on nothing else, so it is not checked against
  the codes of other choosers. Opening an operation keeps the code and starts the
  activity with it, so every operation of a chooser carries the same code.
\<close>

theorem token_is_a_random_draw:
  "123456 \<le> select_code (init r1 r2 fs) \<and> select_code (init r1 r2 fs) \<le> 654321 \<and>
   select_code (init r1 r2 fs) = select_code (init r1 r2' fs') \<and>
   (open_file s on_selection filters multiple = (Inr (), s') \<longrightarrow>
      select_code s' = select_code s \<and>
      (\<exists>t m. events s' = events s @ [StartActivityForResult t m (select_code s)]))"
proof -
  have "123456 \<le> randint 123456 654321 r1 \<and> randint 123456 654321 r1 \<le> 654321"
    by (rule randint_range) simp
  moreover have "open_file s on_selection filters multiple = (Inr (), s') \<longrightarrow>
      select_code s' = select_code s \<and>
      (\<exists>t m. events s' = events s @ [StartActivityForResult t m (select_code s)])"
    by (auto simp: open_file_def Let_def split: option.splits list.splits sum.splits)
  ultimately show ?thesis by (simp add: init_def)
qed

text \<open>
  Two choosers whose draws coincide hold the same code, and two operations opened on
  one chooser are started with the same code.
\<close>

theorem token_collision_counterexample:
  "select_code (init 0 1 {}) = select_code (init 530866 2 {}) \<and>
   events (snd (open_file (snd (open_file (init 0 1 {}) (Some (OnSelection 1)) None None))
       (Some (OnSelection 2)) None None)) =
     [StartActivityForResult ''*/*'' False 123456, StartActivityForResult ''*/*'' False 123456]"
  by (simp add: init_def randint_def open_file_def intent_type_def)

text \<open>Opening an operation on a fresh chooser.\<close>

theorem token_is_a_random_draw_witness:
  "open_file (init 0 0 {}) (Some (OnSelection 1)) None None = (Inr (), ex_state) \<and>
   select_code ex_state = 123456 \<and>
   (\<exists>t m. events ex_state = [StartActivityForResult t m 123456])"
proof -
  have a: "open_file (init 0 0 {}) (Some (OnSelection 1)) None None = (Inr (), ex_state)"
    by (simp add: ex_state_def open_file_def)
  have c: "events (init 0 0 {}) = []" "select_code (init 0 0 {}) = 123456"
    by (simp_all add: init_def randint_def)
  show ?thesis
    using token_is_a_random_draw [of 0 0 "{}" 0 "{}" "init 0 0 {}" "Some (OnSelection 1)" None None ex_state] a c
    by auto
qed

subsection \<open>Multiple selections\<close>

lemma resolve_items_all:
  "\<forall>i \<in> set items. \<exists>p. fst (resolve_uri e i) = Inr p \<Longrightarrow>
   fst (resolve_items e items) =
     Inr (map (\<lambda>i. case fst (resolve_uri e i) of Inr p \<Rightarrow> slot_of p | Inl x \<Rightarrow> PList []) items)"
  by (induction items) (auto simp: split_beta split: sum.splits)

lemma resolve_items_raise:
  "\<exists>i \<in> set items. \<exists>x. fst (resolve_uri e i) = Inl x \<Longrightarrow>
   \<exists>x. fst (resolve_items e items) = Inl x"
proof (induction items)
  case Nil
  then show ?case by simp
next
  case (Cons a items)
  show ?case
  proof (cases "fst (resolve_uri e a)")
    case (Inl x)
    then show ?thesis by (simp add: split_beta)
  next
    case (Inr p)
    with Cons.prems have "\<exists>i \<in> set items. \<exists>x. fst (resolve_uri e i) = Inl x" by auto
    then obtain x where "fst (resolve_items e items) = Inl x" using Cons.IH by blast
    with Inr show ?thesis by (simp add: split_beta)
  qed
qed

text \<open>
  Claim C3, as the code has it. When no item's resolution raises, a multiple selection
  yields one slot per item, in order: the path for an item that resolves to a non-empty
  path, and the empty list \<^verbatim>\<open>[]\<close> (not null) for an item that resolves to null or to
  the empty string. When some item's resolution raises, the slots built so far are
  discarded and the selection is the single resolution of the payload's primary
  locator.
\<close>

theorem selection_slots:
  "(getClipData d = Some items \<and> (\<forall>i \<in> set items. \<exists>p. fst (resolve_uri e i) = Inr p) \<longrightarrow>
      fst (resolve_selection e d) =
        Inr (map (\<lambda>i. case fst (resolve_uri e i) of Inr p \<Rightarrow> slot_of p | Inl x \<Rightarrow> PList [])
               items)) \<and>
   (getClipData d = Some items \<and> (\<exists>i \<in> set items. \<exists>x. fst (resolve_uri e i) = Inl x) \<longrightarrow>
      fst (resolve_selection e d) =
        (case fst (resolve_uri e (getData d)) of
           Inl x \<Rightarrow> Inl x
         | Inr p \<Rightarrow> Inr [value_of p])) \<and>
   slot_of None = PList [] \<and> slot_of (Some []) = PList [] \<and>
   (path \<noteq> [] \<longrightarrow> slot_of (Some path) = PStr path)"
proof (intro conjI impI)
  assume a: "getClipData d = Some items \<and> (\<forall>i \<in> set items. \<exists>p. fst (resolve_uri e i) = Inr p)"
  then show "fst (resolve_selection e d) =
        Inr (map (\<lambda>i. case fst (resolve_uri e i) of Inr p \<Rightarrow> slot_of p | Inl x \<Rightarrow> PList [])
               items)"
    using resolve_items_all [of items e]
    by (simp add: resolve_selection_def split_beta)
next
  assume a: "getClipData d = Some items \<and> (\<exists>i \<in> set items. \<exists>x. fst (resolve_uri e i) = Inl x)"
  then obtain x where "fst (resolve_items e items) = Inl x"
    using resolve_items_raise [of items e] by blast
  with a show "fst (resolve_selection e d) =
        (case fst (resolve_uri e (getData d)) of
           Inl x \<Rightarrow> Inl x
         | Inr p \<Rightarrow> Inr [value_of p])"
    by (simp add: resolve_selection_def split_beta split: sum.splits)
qed (simp_all add: slot_of_def truthy_def)

lemma ex_resolve_uri:
  "fst (resolve_uri (ex_env api) (Some ex_a)) = Inr (Some ''/data/a.txt'')"
  "fst (resolve_uri (ex_env api) (Some ex_b)) = Inr None"
  "fst (resolve_uri (ex_env api) (Some ex_c)) = Inr (Some ''/data/c.txt'')"
  "fst (resolve_uri (ex_env api) (Some ex_x)) = Inl JavaException"
  by code_simp+

text \<open>
  Three items of which the second resolves to nothing: its slot is \<^verbatim>\<open>[]\<close>, not null.
  Three items of which the second makes the provider throw: one slot is left.
\<close>

theorem selection_slots_counterexample:
  "fst (resolve_uri (ex_env 28) (Some ex_b)) = Inr None \<and>
   fst (resolve_selection (ex_env 28) ex_triple) =
     Inr [PStr ''/data/a.txt'', PList [], PStr ''/data/c.txt''] \<and>
   fst (resolve_selection (ex_env 28) ex_triple) \<noteq>
     Inr [PStr ''/data/a.txt'', PNone, PStr ''/data/c.txt''] \<and>
   fst (resolve_uri (ex_env 28) (Some ex_x)) = Inl JavaException \<and>
   fst (resolve_selection (ex_env 28) ex_raising) = Inr [PStr ''/data/c.txt'']"
proof -
  have "fst (resolve_selection (ex_env 28) ex_triple) =
     Inr [PStr ''/data/a.txt'', PList [], PStr ''/data/c.txt'']"
    by code_simp
  moreover have "fst (resolve_selection (ex_env 28) ex_raising) = Inr [PStr ''/data/c.txt'']"
    by code_simp
  ultimately show ?thesis
    by (simp add: ex_resolve_uri)
qed

text \<open>Both cases on the example.\<close>

theorem selection_slots_witness:
  "getClipData ex_triple = Some [Some ex_a, Some ex_b, Some ex_c] \<and>
   fst (resolve_selection (ex_env 28) ex_triple) =
     Inr [PStr ''/data/a.txt'', PList [], PStr ''/data/c.txt''] \<and>
   getClipData ex_raising = Some [Some ex_a, Some ex_x, Some ex_c] \<and>
   fst (resolve_selection (ex_env 28) ex_raising) = Inr [PStr ''/data/c.txt'']"
  using selection_slots [of ex_triple "[Some ex_a, Some ex_b, Some ex_c]" "ex_env 28"]
    selection_slots [of ex_raising "[Some ex_a, Some ex_x, Some ex_c]" "ex_env 28"]
  by (simp add: ex_triple_def ex_raising_def ex_resolve_uri slot_of_def truthy_def value_of_def)

subsection \<open>The downloads provider\<close>

lemma first_nonempty_append:
  "first_nonempty (xs @ ys) =
     (if first_nonempty xs = Inr None then first_nonempty ys else first_nonempty xs)"
  by (induction xs rule: first_nonempty.induct) (auto simp: truthy_def)

lemma first_nonempty_truthy: "first_nonempty rs = Inr (Some q) \<Longrightarrow> truthy (Some q)"
  by (induction rs rule: first_nonempty.induct) (auto split: if_splits)

lemma falsy_cases: "\<not> truthy p \<longleftrightarrow> p = None \<or> p = Some []"
  by (cases p) (auto simp: truthy_def)

lemma loop_staged:
  assumes "proj = (if ia then None else Some [''_data''])"
  shows "\<not> truthy path \<Longrightarrow>
   (first_nonempty (map (\<lambda>d. fst (parse_content e d proj None ArgsNone ia)) cs) = Inr None \<longrightarrow>
      (\<exists>p. fst (try_uris_loop e ia cs path) = Inr p \<and> \<not> truthy p)) \<and>
   (first_nonempty (map (\<lambda>d. fst (parse_content e d proj None ArgsNone ia)) cs) \<noteq> Inr None \<longrightarrow>
      fst (try_uris_loop e ia cs path) =
        first_nonempty (map (\<lambda>d. fst (parse_content e d proj None ArgsNone ia)) cs))"
proof (induction cs arbitrary: path)
  case Nil
  then show ?case by simp
next
  case (Cons down rest)
  have step: "try_uris_loop e ia (down # rest) path =
     (case parse_content e down proj None ArgsNone ia of
        (Inl x, ev) \<Rightarrow>
          if x = JavaException then
            (if truthy path then (Inr path, ev @ [PrintExc])
             else (case try_uris_loop e ia rest path of
                     (r, ev') \<Rightarrow> (r, ev @ [PrintExc] @ ev')))
          else (Inl x, ev)
      | (Inr p, ev) \<Rightarrow>
          if truthy p then (Inr p, ev)
          else (case try_uris_loop e ia rest p of (r, ev') \<Rightarrow> (r, ev @ ev')))"
    unfolding assms by simp
  show ?case
  proof (cases "fst (parse_content e down proj None ArgsNone ia)")
    case (Inl x)
    show ?thesis
    proof (cases "x = JavaException")
      case True
      with Inl Cons.prems Cons.IH [of path] show ?thesis
        unfolding step by (simp add: split_beta)
    next
      case False
      with Inl show ?thesis unfolding step by (simp add: split_beta)
    qed
  next
    case (Inr p)
    show ?thesis
    proof (cases "truthy p")
      case True
      then obtain q where "p = Some q" by (cases p) (simp_all add: truthy_def)
      with Inr True show ?thesis unfolding step by (simp add: split_beta)
    next
      case False
      with Inr Cons.IH [of p] show ?thesis unfolding step by (simp add: split_beta)
    qed
  qed
qed

text \<open>
  Claim C6, as the code has it. A display name, when the first lookup returns one, is
  joined under the downloads directory and returned. Otherwise the three known
  locations are queried for \<^verbatim>\<open>_data\<close>, then queried again with all columns joined; a
  \<^verbatim>\<open>JavaException\<close> of one candidate passes control to the next, any other exception
  propagates, and the first non-empty value is returned, whatever empty values came
  before it. When every attempt is exhausted the result is empty: null or the empty
  string.
\<close>

theorem downloads_staged_search:
  "(fst (parse_content e u (Some [''_display_name'']) None ArgsNone False) = Inr (Some name) \<longrightarrow>
      fst (handle_downloads_documents e u) = Inr (Some (join (downloads_dir e) name))) \<and>
   ((\<forall>name'. fst (parse_content e u (Some [''_display_name'']) None ArgsNone False) \<noteq>
        Inr (Some name')) \<and>
    getDocumentId e u = Inr file_id \<and> Long_valueOf e file_id = Inr n \<and>
    staged = first_nonempty
      (map (\<lambda>down. fst (parse_content e (WithAppendedId (Uri down) n) (Some [''_data''])
              None ArgsNone False)) downloads @
       map (\<lambda>down. fst (parse_content e (WithAppendedId (Uri down) n) None
              None ArgsNone True)) downloads) \<longrightarrow>
      (if staged = Inr None
       then fst (handle_downloads_documents e u) = Inr None \<or>
            fst (handle_downloads_documents e u) = Inr (Some [])
       else fst (handle_downloads_documents e u) = staged))"
proof (intro conjI impI)
  assume "fst (parse_content e u (Some [''_display_name'']) None ArgsNone False) = Inr (Some name)"
  then show "fst (handle_downloads_documents e u) = Inr (Some (join (downloads_dir e) name))"
    by (simp add: handle_downloads_documents_def split_beta join_py_def)
next
  assume a: "(\<forall>name'. fst (parse_content e u (Some [''_display_name'']) None ArgsNone False) \<noteq>
        Inr (Some name')) \<and>
    getDocumentId e u = Inr file_id \<and> Long_valueOf e file_id = Inr n \<and>
    staged = first_nonempty
      (map (\<lambda>down. fst (parse_content e (WithAppendedId (Uri down) n) (Some [''_data''])
              None ArgsNone False)) downloads @
       map (\<lambda>down. fst (parse_content e (WithAppendedId (Uri down) n) None
              None ArgsNone True)) downloads)"
  define cands where "cands = map (\<lambda>down. WithAppendedId (Uri down) n) downloads"
  define D where "D = first_nonempty
      (map (\<lambda>d. fst (parse_content e d (Some [''_data'']) None ArgsNone False)) cands)"
  define A where "A = first_nonempty
      (map (\<lambda>d. fst (parse_content e d None None ArgsNone True)) cands)"
  define l1 where "l1 = fst (try_uris_loop e False cands None)"
  have staged: "staged = (if D = Inr None then A else D)"
    using a by (simp add: first_nonempty_append D_def A_def cands_def comp_def)
  have first: "\<exists>x. (case fst (parse_content e u (Some [''_display_name'']) None ArgsNone False) of
            Inl x \<Rightarrow> Inl x | Inr path \<Rightarrow> join_py (downloads_dir e) path) = Inl x"
    using a by (auto simp: join_py_def split: sum.splits option.splits)
  have res: "fst (handle_downloads_documents e u) =
      (case l1 of
         Inl x \<Rightarrow> Inl x
       | Inr path \<Rightarrow> if \<not> truthy path then fst (try_uris_loop e True cands path) else Inr path)"
    using a first
    by (auto simp: handle_downloads_documents_def split_beta Let_def cands_def l1_def
        split: sum.splits)
  have "\<not> truthy None" by (simp add: truthy_def)
  then have s2: "(D = Inr None \<longrightarrow> (\<exists>p. l1 = Inr p \<and> \<not> truthy p)) \<and> (D \<noteq> Inr None \<longrightarrow> l1 = D)"
    unfolding D_def l1_def by (rule loop_staged [rotated]) simp
  show "if staged = Inr None
       then fst (handle_downloads_documents e u) = Inr None \<or>
            fst (handle_downloads_documents e u) = Inr (Some [])
       else fst (handle_downloads_documents e u) = staged"
  proof (cases "D = Inr None")
    case True
    then obtain p where p: "l1 = Inr p" "\<not> truthy p" using s2 by auto
    have s3: "(A = Inr None \<longrightarrow> (\<exists>q. fst (try_uris_loop e True cands p) = Inr q \<and> \<not> truthy q)) \<and>
              (A \<noteq> Inr None \<longrightarrow> fst (try_uris_loop e True cands p) = A)"
      unfolding A_def using p(2) by (rule loop_staged [rotated]) simp
    show ?thesis
      using True p s3 staged res by (auto simp: falsy_cases)
  next
    case False
    then have l1: "l1 = D" using s2 by simp
    show ?thesis
    proof (cases D)
      case (Inl x)
      with l1 False staged res show ?thesis by simp
    next
      case (Inr q)
      with False obtain q' where q': "q = Some q'" by (cases q) auto
      then have "truthy q" using first_nonempty_truthy [of _ q'] Inr D_def by simp
      with l1 False staged res Inr q' show ?thesis by simp
    qed
  qed
qed

lemma ex_downloads_7:
  "fst (parse_content (ex_env api) (ex_dl 7) (Some [''_display_name'']) None ArgsNone False) =
     Inl JavaException"
  "fst (parse_content (ex_env api) (WithAppendedId (Uri ''content://downloads/public_downloads'') 7)
     (Some [''_data'']) None ArgsNone False) = Inl JavaException"
  "fst (parse_content (ex_env api) (WithAppendedId (Uri ''content://downloads/my_downloads'') 7)
     (Some [''_data'']) None ArgsNone False) = Inr None"
  "fst (parse_content (ex_env api) (WithAppendedId (Uri ''content://downloads/all_downloads'') 7)
     (Some [''_data'']) None ArgsNone False) = Inr (Some ''data/foo.txt'')"
  "getDocumentId (ex_env api) (ex_dl 7) = Inr ''7''"
  "Long_valueOf (ex_env api) ''7'' = Inr 7"
  by code_simp+

lemma ex_downloads_9:
  "fst (parse_content (ex_env api) (ex_dl 9) (Some [''_display_name'']) None ArgsNone False) =
     Inr (Some ''report.pdf'')"
  "downloads_dir (ex_env api) = ''/sd/Download''"
  by code_simp+

text \<open>
  A document with a display name; and one whose first candidate throws, whose second
  has no row and whose third holds \<^verbatim>\<open>data/foo.txt\<close>.
\<close>

theorem downloads_staged_search_witness:
  "fst (handle_downloads_documents (ex_env 28) (ex_dl 9)) = Inr (Some ''/sd/Download/report.pdf'') \<and>
   fst (handle_downloads_documents (ex_env 28) (ex_dl 7)) = Inr (Some ''data/foo.txt'')"
  using downloads_staged_search [of "ex_env 28" "ex_dl 9" "''report.pdf''"]
    downloads_staged_search [of "ex_env 28" "ex_dl 7" _ "''7''" 7 "Inr (Some ''data/foo.txt'')"]
  by (simp add: ex_downloads_7 ex_downloads_9 downloads_def truthy_def join_def)

text \<open>
  A document for which every stage comes back empty: the result is the empty string,
  not null.
\<close>

theorem downloads_exhausted_counterexample:
  "fst (parse_content (ex_env 28) (ex_dl 8) (Some [''_display_name'']) None ArgsNone False) =
     Inr None \<and>
   first_nonempty
      (map (\<lambda>down. fst (parse_content (ex_env 28) (WithAppendedId (Uri down) 8) (Some [''_data''])
              None ArgsNone False)) downloads @
       map (\<lambda>down. fst (parse_content (ex_env 28) (WithAppendedId (Uri down) 8) None
              None ArgsNone True)) downloads) = Inr None \<and>
   fst (handle_downloads_documents (ex_env 28) (ex_dl 8)) = Inr (Some []) \<and>
   fst (handle_downloads_documents (ex_env 28) (ex_dl 8)) \<noteq> Inr None"
proof -
  have "fst (parse_content (ex_env 28) (ex_dl 8) (Some [''_display_name'']) None ArgsNone False) =
     Inr None"
    by code_simp
  moreover have "first_nonempty
      (map (\<lambda>down. fst (parse_content (ex_env 28) (WithAppendedId (Uri down) 8) (Some [''_data''])
              None ArgsNone False)) downloads @
       map (\<lambda>down. fst (parse_content (ex_env 28) (WithAppendedId (Uri down) 8) None
              None ArgsNone True)) downloads) = Inr None"
    by code_simp
  moreover have "fst (handle_downloads_documents (ex_env 28) (ex_dl 8)) = Inr (Some [])"
    by code_simp
  ultimately show ?thesis by simp
qed

subsection \<open>Content locators of other authorities\<close>

lemma parse_content_events:
  "snd (parse_content e u p s a i) =
     GrantUriPermission u # (if grantUriPermission e u = None then [Query u p s a] else [])"
  by (simp add: parse_content_def split: option.splits)

lemma generic_resolve:
  assumes "getScheme e u = Some sch" and "lower sch = ''content''"
    and "getAuthority e u \<noteq> Some ''com.android.externalstorage.documents''"
    and "getAuthority e u \<noteq> Some ''com.android.providers.downloads.documents''"
    and "getAuthority e u \<noteq> Some ''com.android.providers.media.documents''"
  shows "resolve_uri e (Some u) = content_attempts e u u None None None"
  using assms by (simp add: resolve_uri_def by_scheme_def truthy_def)

text \<open>
  Claim C7. For a content locator of an unrecognised authority, \<^verbatim>\<open>_resolve_uri\<close>
  first makes the \<^verbatim>\<open>_data\<close> attempt with the filter argument as it is; it makes the
  attempt with the wrapped argument exactly when the first raised a \<^verbatim>\<open>JavaException\<close>;
  and it makes the display-name attempt on the same, original locator exactly when the
  path is still empty, once. Nothing else is issued.
\<close>

theorem generic_content_attempts:
  assumes "getScheme e u = Some sch" and "lower sch = ''content''"
    and "getAuthority e u \<noteq> Some ''com.android.externalstorage.documents''"
    and "getAuthority e u \<noteq> Some ''com.android.providers.downloads.documents''"
    and "getAuthority e u \<noteq> Some ''com.android.providers.media.documents''"
  shows "snd (resolve_uri e (Some u)) =
           snd (data_attempt e u) @
           (if fst (data_attempt e u) = Inl JavaException then snd (wrapped_attempt e u) else []) @
           (if truthy (path_after_data e u) then [] else snd (display_name_attempt e u)) \<and>
         (truthy (path_after_data e u) \<longrightarrow>
            fst (resolve_uri e (Some u)) = Inr (path_after_data e u)) \<and>
         (\<not> truthy (path_after_data e u) \<and>
          (\<exists>p. fst (data_attempt e u) = Inr p \<or>
               fst (data_attempt e u) = Inl JavaException \<and> fst (wrapped_attempt e u) = Inr p) \<longrightarrow>
            fst (resolve_uri e (Some u)) = fst (display_name_attempt e u)) \<and>
         (grantUriPermission e u = None \<longrightarrow>
            snd (data_attempt e u) =
              [GrantUriPermission u, Query u (Some [''_data'']) None ArgsNone] \<and>
            snd (wrapped_attempt e u) =
              [GrantUriPermission u, Query u (Some [''_data'']) None (ArgsList [None])] \<and>
            snd (display_name_attempt e u) =
              [GrantUriPermission u, Query u (Some [''_display_name'']) None ArgsNone])"
proof -
  have r: "resolve_uri e (Some u) = content_attempts e u u None None None"
    using assms by (rule generic_resolve)
  have ev: "snd (content_attempts e u u None None None) =
           snd (data_attempt e u) @
           (if fst (data_attempt e u) = Inl JavaException then snd (wrapped_attempt e u) else []) @
           (if truthy (path_after_data e u) then [] else snd (display_name_attempt e u))"
    by (simp add: content_attempts_def finally_clause_def split_beta path_after_data_def
        data_attempt_def wrapped_attempt_def display_name_attempt_def unwrapped_def wrapped_def
        truthy_def split: sum.splits option.splits)
  have v1: "truthy (path_after_data e u) \<longrightarrow>
            fst (content_attempts e u u None None None) = Inr (path_after_data e u)"
    by (simp add: content_attempts_def finally_clause_def split_beta path_after_data_def
        data_attempt_def wrapped_attempt_def display_name_attempt_def unwrapped_def wrapped_def
        truthy_def split: sum.splits option.splits)
  have v2: "\<not> truthy (path_after_data e u) \<and>
          (\<exists>p. fst (data_attempt e u) = Inr p \<or>
               fst (data_attempt e u) = Inl JavaException \<and> fst (wrapped_attempt e u) = Inr p) \<longrightarrow>
            fst (content_attempts e u u None None None) = fst (display_name_attempt e u)"
    by (auto simp: content_attempts_def finally_clause_def split_beta path_after_data_def
        data_attempt_def wrapped_attempt_def display_name_attempt_def unwrapped_def wrapped_def
        split: sum.splits option.splits)
  show ?thesis
    unfolding r using ev v1 v2
    by (simp add: data_attempt_def wrapped_attempt_def display_name_attempt_def
        parse_content_events)
qed

lemma ex_x_attempts:
  "fst (data_attempt (ex_env api) ex_x) = Inl JavaException"
  "fst (wrapped_attempt (ex_env api) ex_x) = Inl JavaException"
  "path_after_data (ex_env api) ex_x = None"
  "getScheme (ex_env api) ex_x = Some ''content''"
  "lower ''content'' = ''content''"
  "getAuthority (ex_env api) ex_x = Some ''ex''"
  by code_simp+

text \<open>A locator on which every query throws: all three attempts are made.\<close>

theorem generic_content_attempts_witness:
  "getScheme (ex_env 28) ex_x = Some ''content'' \<and>
   snd (resolve_uri (ex_env 28) (Some ex_x)) =
     [GrantUriPermission ex_x, Query ex_x (Some [''_data'']) None ArgsNone,
      GrantUriPermission ex_x, Query ex_x (Some [''_data'']) None (ArgsList [None]),
      GrantUriPermission ex_x, Query ex_x (Some [''_display_name'']) None ArgsNone]"
  using generic_content_attempts [of "ex_env 28" ex_x "''content''"]
  by (simp add: ex_x_attempts ex_env_fields truthy_def)

end
